theory Spec2Isabelle
  imports Main "HOL-Library.Word"
begin

unbundle bit_operations_syntax

section \<open>The launcher's wire protocol (missile-launcher.c, lines 13 to 40)\<close>

type_synonym uint8 = "8 word"
type_synonym useconds = "32 word"

definition CMD_MOVE_DOWN :: uint8 where "CMD_MOVE_DOWN = 0x01"
definition CMD_MOVE_UP :: uint8 where "CMD_MOVE_UP = 0x02"
definition CMD_MOVE_LEFT :: uint8 where "CMD_MOVE_LEFT = 0x04"
definition CMD_MOVE_RIGHT :: uint8 where "CMD_MOVE_RIGHT = 0x08"
definition CMD_FIRE :: uint8 where "CMD_FIRE = 0x10"
definition CMD_STOP :: uint8 where "CMD_STOP = 0x20"
definition CMD_GET_STATUS :: uint8 where "CMD_GET_STATUS = 0x40"

definition STATUS_DOWN_LIMIT :: uint8 where "STATUS_DOWN_LIMIT = 0x01"
definition STATUS_UP_LIMIT :: uint8 where "STATUS_UP_LIMIT = 0x02"
definition STATUS_LEFT_LIMIT :: uint8 where "STATUS_LEFT_LIMIT = 0x04"
definition STATUS_RIGHT_LIMIT :: uint8 where "STATUS_RIGHT_LIMIT = 0x08"
definition STATUS_DEVICE_FIRED :: uint8 where "STATUS_DEVICE_FIRED = 0x10"

definition MOVE_HOLD_TIME_US :: useconds where "MOVE_HOLD_TIME_US = 100000"
definition FIRE_HOLD_TIME_US :: useconds where "FIRE_HOLD_TIME_US = 500000"

text \<open>The enum \<open>movement\<close> and the struct \<open>arguments\<close> (lines 74 to 93).\<close>

datatype movement =
    MOVEMENT_NONE
  | MOVEMENT_TILT_UP
  | MOVEMENT_TILT_DOWN
  | MOVEMENT_PAN_LEFT
  | MOVEMENT_PAN_RIGHT

record arguments =
  movement :: movement
  movement_duration :: useconds
  fire :: bool
  display_status :: bool

section \<open>The environment: the HID transport and the observable effects\<close>

text \<open>
  The program talks to the outside through hidapi, \<open>usleep\<close>, \<open>stdout\<close> and
  \<open>stderr\<close>. Every such call is one event of a trace, in program order. A frame is
  the buffer handed to \<open>hid_write\<close>, and the flag beside it says that the
  call did not fail (its return value was not negative); \<open>Hid_read\<close> is one call
  of \<open>hid_read\<close> on the one-byte status buffer, with what it answered.
\<close>

datatype read_reply = Read_failed | Read_byte uint8

datatype event =
    Hid_open bool
  | Hid_write "uint8 list" bool
  | Hid_read read_reply
  | Usleep useconds
  | Stderr string
  | Stdout string
  | Argp_usage
  | Hid_close

text \<open>
  What the transport answers is a parameter of the model. The device handle is
  blocking (the program never asks for anything else), so a call of \<open>hid_read\<close>
  either fails (a negative return) or fills the one-byte buffer. The k-th call
  of \<open>hid_write\<close> returns \<open>write_rc k\<close>, the k-th call of \<open>hid_read\<close>
  answers \<open>read_reply k\<close> (both counted from 0 over the whole run), and
  \<open>open_ok\<close> says whether \<open>hid_open\<close> returns a device. The local \<open>status\<close>
  of \<open>fire_missile\<close> and \<open>print_status\<close> is not initialised by the program:
  \<open>stack_junk\<close> is the byte it holds before the first read.
\<close>

record environment =
  open_ok :: bool
  write_rc :: "nat \<Rightarrow> int"
  read_reply :: "nat \<Rightarrow> read_reply"
  stack_junk :: uint8

record world =
  writes :: nat
  reads :: nat
  trace :: "event list"

definition world0 :: world where
  "world0 = \<lparr>writes = 0, reads = 0, trace = []\<rparr>"

definition emit :: "event \<Rightarrow> world \<Rightarrow> world" where
  "emit e w = w\<lparr>trace := trace w @ [e]\<rparr>"

definition line :: "string \<Rightarrow> string" where
  "line s = s @ [CHR 0x0A]"

definition fprintf_stderr :: "string \<Rightarrow> world \<Rightarrow> world" where
  "fprintf_stderr s w = emit (Stderr s) w"

definition printf :: "string \<Rightarrow> world \<Rightarrow> world" where
  "printf s w = emit (Stdout s) w"

definition usleep :: "useconds \<Rightarrow> world \<Rightarrow> world" where
  "usleep d w = emit (Usleep d) w"

definition hid_write :: "environment \<Rightarrow> uint8 list \<Rightarrow> world \<Rightarrow> int \<times> world" where
  "hid_write env buf w =
     (let rc = write_rc env (writes w) in
      (rc, emit (Hid_write buf (\<not> rc < 0)) (w\<lparr>writes := Suc (writes w)\<rparr>)))"

definition hid_read :: "environment \<Rightarrow> world \<Rightarrow> read_reply \<times> world" where
  "hid_read env w =
     (let r = read_reply env (reads w) in
      (r, emit (Hid_read r) (w\<lparr>reads := Suc (reads w)\<rparr>)))"

section \<open>Sending commands and reading the status (lines 181 to 262)\<close>

text \<open>\<open>send_command\<close>: the two-byte output report, report number 0 first.\<close>

definition send_command :: "environment \<Rightarrow> uint8 \<Rightarrow> world \<Rightarrow> int \<times> world" where
  "send_command env cmd w =
     (let buf = [0, cmd] in
      case hid_write env buf w of
        (rc, w1) \<Rightarrow>
          if rc < 0 then (- 1, fprintf_stderr (line ''Output report write failed'') w1)
          else (0, w1))"

text \<open>
  \<open>get_status\<close>: \<open>status\<close> is the caller's byte, passed by address; the result
  carries its contents after the call.
\<close>

definition get_status :: "environment \<Rightarrow> uint8 \<Rightarrow> world \<Rightarrow> int \<times> uint8 \<times> world" where
  "get_status env status w =
     (case send_command env CMD_GET_STATUS w of
        (rc, w1) \<Rightarrow>
          if rc \<noteq> 0
          then (- 1, status, fprintf_stderr (line ''Failed to send command to fetch status'') w1)
          else
            (case hid_read env w1 of
               (Read_failed, w2) \<Rightarrow>
                 (- 1, status, fprintf_stderr (line ''Failed to read input report'') w2)
             | (Read_byte b, w2) \<Rightarrow> (0, b, w2)))"

definition truth :: "bool \<Rightarrow> string" where
  "truth b = (if b then ''true'' else ''false'')"

definition print_status :: "environment \<Rightarrow> world \<Rightarrow> int \<times> world" where
  "print_status env w =
     (case get_status env (stack_junk env) w of
        (rc, status, w1) \<Rightarrow>
          if rc \<noteq> 0
          then (- 1, fprintf_stderr (line ''Failed to retrieve status information'') w1)
          else
            (0, printf
               (line (''Tilt up limit:      '' @ truth (status AND STATUS_UP_LIMIT \<noteq> 0)) @
                line (''Tilt down limit:    '' @ truth (status AND STATUS_DOWN_LIMIT \<noteq> 0)) @
                line (''Pan left limit:     '' @ truth (status AND STATUS_LEFT_LIMIT \<noteq> 0)) @
                line (''Pan right limit:    '' @ truth (status AND STATUS_RIGHT_LIMIT \<noteq> 0)) @
                line (''Fire complete:      '' @ truth (status AND STATUS_DEVICE_FIRED \<noteq> 0)))
               w1))"

section \<open>Firing (lines 271 to 311)\<close>

text \<open>
  The \<open>do ... while\<close> loop of \<open>fire_missile\<close> has no bound: it runs for as long
  as the device answers without the fired bit. The model counts iterations down
  from a fuel; the result \<open>None\<close> says that the loop was still running when the
  fuel ran out, and the world returned with it is the run so far. \<open>ret\<close> is 0
  whenever the loop body starts, so it is not an argument.
\<close>

fun fire_loop :: "nat \<Rightarrow> environment \<Rightarrow> uint8 \<Rightarrow> world \<Rightarrow> int option \<times> world" where
  "fire_loop 0 env status w = (None, w)"
| "fire_loop (Suc n) env status w =
     (case get_status env status w of
        (rc, status', w1) \<Rightarrow>
          (case (if rc \<noteq> 0 then (- 1, fprintf_stderr (line ''Failed to get status'') w1)
                 else (0, w1)) of
             (ret, w2) \<Rightarrow>
               if \<not> (status' AND STATUS_DEVICE_FIRED \<noteq> 0) \<and> ret = 0
               then fire_loop n env status' w2
               else (Some ret, w2)))"

definition fire_missile :: "nat \<Rightarrow> environment \<Rightarrow> world \<Rightarrow> int option \<times> world" where
  "fire_missile fuel env w =
     (case send_command env CMD_FIRE w of
        (rc, w1) \<Rightarrow>
          if rc \<noteq> 0
          then (Some (- 1), fprintf_stderr (line ''Failed to perform requested movement'') w1)
          else
            (case fire_loop fuel env (stack_junk env) w1 of
               (None, w2) \<Rightarrow> (None, w2)
             | (Some ret, w2) \<Rightarrow>
                 if ret = 0
                 then
                   (case send_command env CMD_STOP (usleep FIRE_HOLD_TIME_US w2) of
                      (rc', w3) \<Rightarrow>
                        if rc' \<noteq> 0
                        then (Some (- 1), fprintf_stderr (line ''Failed to stop firing'') w3)
                        else (Some ret, w3))
                 else (Some ret, w2)))"

section \<open>Moving (lines 322 to 364)\<close>

definition move_turret ::
  "environment \<Rightarrow> movement \<Rightarrow> useconds \<Rightarrow> world \<Rightarrow> int \<times> world" where
  "move_turret env m duration w =
     (case (case m of
              MOVEMENT_TILT_UP \<Rightarrow> Some CMD_MOVE_UP
            | MOVEMENT_TILT_DOWN \<Rightarrow> Some CMD_MOVE_DOWN
            | MOVEMENT_PAN_LEFT \<Rightarrow> Some CMD_MOVE_LEFT
            | MOVEMENT_PAN_RIGHT \<Rightarrow> Some CMD_MOVE_RIGHT
            | MOVEMENT_NONE \<Rightarrow> None) of
        None \<Rightarrow> (- 1, fprintf_stderr (line ''Unrecognized movement'') w)
      | Some cmd \<Rightarrow>
          (case send_command env cmd w of
             (rc, w1) \<Rightarrow>
               if rc \<noteq> 0
               then (- 1, fprintf_stderr (line ''Failed to perform requested movement'') w1)
               else
                 (case send_command env CMD_STOP (usleep duration w1) of
                    (rc', w2) \<Rightarrow>
                      if rc' \<noteq> 0
                      then (- 1, fprintf_stderr (line ''Failed to stop movement'') w2)
                      else (0, w2))))"

section \<open>Command-line options (lines 105 to 166)\<close>

text \<open>
  \<open>strtoul\<close> belongs to the C library, not to the program. It is modelled from
  ISO C (7.22.1.4) for base 0, the only base the program asks for, and for an
  \<open>unsigned long\<close> of 64 bits: white space is skipped, one sign is accepted, a
  leading \<open>0x\<close> before a hexadecimal digit selects base 16 and any other leading
  \<open>0\<close> base 8, the longest run of digits of the base is converted, a value out
  of range becomes \<open>ULONG_MAX\<close>, and a minus sign negates the value in the
  unsigned type (a word of 64 bits). The second component is the text
  \<open>endptr\<close> points to; with no digits at all nothing is converted and
  \<open>endptr\<close> is the argument itself.
\<close>

type_synonym ulong = "64 word"

definition ULONG_MAX :: int where
  "ULONG_MAX = 18446744073709551615"

definition isspace :: "char \<Rightarrow> bool" where
  "isspace c = (c = CHR '' '' \<or> (9 \<le> (of_char c :: int) \<and> (of_char c :: int) \<le> 13))"

definition digit_value :: "char \<Rightarrow> int" where
  "digit_value c =
     (let n = (of_char c :: int) in
      if 48 \<le> n \<and> n \<le> 57 then n - 48
      else if 97 \<le> n \<and> n \<le> 122 then n - 87
      else if 65 \<le> n \<and> n \<le> 90 then n - 55
      else 36)"

fun convert_digits :: "int \<Rightarrow> int \<Rightarrow> string \<Rightarrow> int \<times> string" where
  "convert_digits base acc [] = (acc, [])"
| "convert_digits base acc (c # cs) =
     (if digit_value c < base then convert_digits base (acc * base + digit_value c) cs
      else (acc, c # cs))"

fun skip_sign :: "string \<Rightarrow> bool \<times> string" where
  "skip_sign [] = (False, [])"
| "skip_sign (c # cs) =
     (if c = CHR ''-'' then (True, cs)
      else if c = CHR ''+'' then (False, cs)
      else (False, c # cs))"

fun detect_base :: "string \<Rightarrow> int \<times> string" where
  "detect_base (z # x # h # cs) =
     (if z = CHR ''0'' \<and> (x = CHR ''x'' \<or> x = CHR ''X'') \<and> digit_value h < 16
      then (16, h # cs)
      else if z = CHR ''0'' then (8, z # x # h # cs)
      else (10, z # x # h # cs))"
| "detect_base (z # cs) = (if z = CHR ''0'' then (8, z # cs) else (10, z # cs))"
| "detect_base [] = (10, [])"

definition strtoul :: "string \<Rightarrow> ulong \<times> string" where
  "strtoul nptr =
     (case skip_sign (dropWhile isspace nptr) of
        (negative, s1) \<Rightarrow>
          (case detect_base s1 of
             (base, s2) \<Rightarrow>
               (case convert_digits base 0 s2 of
                  (v, endptr) \<Rightarrow>
                    if length endptr = length s2 then (0, nptr)
                    else if ULONG_MAX < v then (word_of_int ULONG_MAX, endptr)
                    else if negative then (- word_of_int v, endptr)
                    else (word_of_int v, endptr))))"

text \<open>
  argp calls \<open>parse_opt\<close> once per option and positional argument it finds, and
  with keys of its own before and after. The options declared with an argument
  (\<open>--move\<close>, \<open>--time\<close>) always come with one, so the callbacks are a datatype.
\<close>

datatype callback =
    Key_m string
  | Key_f
  | Key_t string
  | Key_p
  | ARGP_KEY_ARG string
  | Key_other int

definition ARGP_ERR_UNKNOWN :: int where "ARGP_ERR_UNKNOWN = 7"
definition EX_USAGE :: int where "EX_USAGE = 64"
definition EXIT_SUCCESS :: int where "EXIT_SUCCESS = 0"
definition EXIT_FAILURE :: int where "EXIT_FAILURE = 1"

text \<open>
  \<open>argp_usage\<close> prints the usage message and ends the process with status
  \<open>EX_USAGE\<close> (the parser runs with flags 0): \<open>parse_opt\<close> then returns nothing.
\<close>

definition argp_usage :: "world \<Rightarrow> world" where
  "argp_usage w = emit Argp_usage w"

text \<open>
  In the case for \<open>'t'\<close> the test \<open>arg != '\0'\<close> compares the pointer \<open>arg\<close>
  with the null pointer, not the first character with the terminator; \<open>arg\<close>
  points to the option's argument, so the test holds.
\<close>

definition parse_opt ::
  "callback \<Rightarrow> arguments \<Rightarrow> world \<Rightarrow> (int \<times> arguments) option \<times> world" where
  "parse_opt cb arguments w =
     (case cb of
        Key_m arg \<Rightarrow>
          if arg = ''up'' then (Some (0, arguments\<lparr>movement := MOVEMENT_TILT_UP\<rparr>), w)
          else if arg = ''down'' then (Some (0, arguments\<lparr>movement := MOVEMENT_TILT_DOWN\<rparr>), w)
          else if arg = ''left'' then (Some (0, arguments\<lparr>movement := MOVEMENT_PAN_LEFT\<rparr>), w)
          else if arg = ''right'' then (Some (0, arguments\<lparr>movement := MOVEMENT_PAN_RIGHT\<rparr>), w)
          else (None, argp_usage (fprintf_stderr (line (''Invalid movement: '' @ arg)) w))
      | Key_f \<Rightarrow> (Some (0, arguments\<lparr>fire := True\<rparr>), w)
      | Key_t arg \<Rightarrow>
          (case strtoul arg of
             (duration_ms, endptr) \<Rightarrow>
               if True \<and> endptr = [] \<and> duration_ms < 10000
               then (Some (0, arguments\<lparr>movement_duration := ucast (duration_ms * 1000)\<rparr>), w)
               else (None, argp_usage (fprintf_stderr (line ''Invalid duration specified'') w)))
      | Key_p \<Rightarrow> (Some (0, arguments\<lparr>display_status := True\<rparr>), w)
      | ARGP_KEY_ARG arg \<Rightarrow> (None, argp_usage w)
      | Key_other k \<Rightarrow> (Some (ARGP_ERR_UNKNOWN, arguments), w))"

fun argp_parse :: "callback list \<Rightarrow> arguments \<Rightarrow> world \<Rightarrow> arguments option \<times> world" where
  "argp_parse [] arguments w = (Some arguments, w)"
| "argp_parse (cb # cbs) arguments w =
     (case parse_opt cb arguments w of
        (None, w1) \<Rightarrow> (None, w1)
      | (Some (err, arguments1), w1) \<Rightarrow> argp_parse cbs arguments1 w1)"

section \<open>The entry point (lines 374 to 437)\<close>

definition default_arguments :: arguments where
  "default_arguments =
     \<lparr>movement = MOVEMENT_NONE, movement_duration = MOVE_HOLD_TIME_US,
      fire = False, display_status = False\<rparr>"

text \<open>The three conditional blocks of \<open>main\<close>, each with \<open>ret\<close> in and out.\<close>

definition main_move :: "environment \<Rightarrow> arguments \<Rightarrow> int \<Rightarrow> world \<Rightarrow> int \<times> world" where
  "main_move env arguments ret w =
     (if movement arguments \<noteq> MOVEMENT_NONE
      then
        (case move_turret env (movement arguments) (movement_duration arguments) w of
           (rc, w1) \<Rightarrow>
             if rc \<noteq> 0 then (EXIT_FAILURE, fprintf_stderr (line ''Failed to move turret'') w1)
             else (ret, w1))
      else (ret, w))"

definition main_fire ::
  "nat \<Rightarrow> environment \<Rightarrow> arguments \<Rightarrow> int \<Rightarrow> world \<Rightarrow> int option \<times> world" where
  "main_fire fuel env arguments ret w =
     (if fire arguments \<and> ret = EXIT_SUCCESS
      then
        (case fire_missile fuel env w of
           (None, w1) \<Rightarrow> (None, w1)
         | (Some rc, w1) \<Rightarrow>
             if rc \<noteq> 0
             then (Some EXIT_FAILURE, fprintf_stderr (line ''Failed to fire missile'') w1)
             else (Some ret, w1))
      else (Some ret, w))"

definition main_status :: "environment \<Rightarrow> arguments \<Rightarrow> int \<Rightarrow> world \<Rightarrow> int \<times> world" where
  "main_status env arguments ret w =
     (if display_status arguments \<and> ret = EXIT_SUCCESS
      then
        (case print_status env w of
           (rc, w1) \<Rightarrow>
             if rc \<noteq> 0
             then (EXIT_FAILURE, fprintf_stderr (line ''Failed to print status information'') w1)
             else (ret, w1))
      else (ret, w))"

text \<open>
  \<open>main\<close> on the callbacks argp makes for the command line. The result is the
  exit status, or \<open>None\<close> when the fuel ran out inside \<open>fire_missile\<close>.
\<close>

definition main :: "nat \<Rightarrow> environment \<Rightarrow> callback list \<Rightarrow> int option \<times> world" where
  "main fuel env argv =
     (case argp_parse argv default_arguments world0 of
        (None, w1) \<Rightarrow> (Some EX_USAGE, w1)
      | (Some arguments, w1) \<Rightarrow>
          (let w2 = emit (Hid_open (open_ok env)) w1 in
           if \<not> open_ok env
           then (Some EXIT_FAILURE, fprintf_stderr (line ''Failed to open requested device'') w2)
           else
             (case main_move env arguments EXIT_SUCCESS w2 of
                (ret1, w3) \<Rightarrow>
                  (case main_fire fuel env arguments ret1 w3 of
                     (None, w4) \<Rightarrow> (None, w4)
                   | (Some ret2, w4) \<Rightarrow>
                       (case main_status env arguments ret2 w4 of
                          (ret3, w5) \<Rightarrow> (Some ret3, emit Hid_close w5))))))"

section \<open>The vocabulary of the specification\<close>

text \<open>
  The specification speaks of directions, of commands with fixed wire values, of
  an encoder and of a status decoder. The program has no such functions: it
  passes the macros to \<open>send_command\<close> and tests the status bits in place. The
  definitions of this section follow the specification's words, and the theorems
  compare them with the program.
\<close>

datatype direction = Up | Down | Left | Right

datatype command = MoveDown | MoveUp | MoveLeft | MoveRight | Fire | Stop | GetStatus

fun movement_of :: "direction \<Rightarrow> movement" where
  "movement_of Up = MOVEMENT_TILT_UP"
| "movement_of Down = MOVEMENT_TILT_DOWN"
| "movement_of Left = MOVEMENT_PAN_LEFT"
| "movement_of Right = MOVEMENT_PAN_RIGHT"

fun move_command :: "direction \<Rightarrow> command" where
  "move_command Up = MoveUp"
| "move_command Down = MoveDown"
| "move_command Left = MoveLeft"
| "move_command Right = MoveRight"

text \<open>The macro the program passes to \<open>send_command\<close> for each command.\<close>

fun command_macro :: "command \<Rightarrow> uint8" where
  "command_macro MoveDown = CMD_MOVE_DOWN"
| "command_macro MoveUp = CMD_MOVE_UP"
| "command_macro MoveLeft = CMD_MOVE_LEFT"
| "command_macro MoveRight = CMD_MOVE_RIGHT"
| "command_macro Fire = CMD_FIRE"
| "command_macro Stop = CMD_STOP"
| "command_macro GetStatus = CMD_GET_STATUS"

text \<open>The encoder of the specification: report number 0, then the wire value.\<close>

fun wire_value :: "command \<Rightarrow> uint8" where
  "wire_value MoveDown = 0x01"
| "wire_value MoveUp = 0x02"
| "wire_value MoveLeft = 0x04"
| "wire_value MoveRight = 0x08"
| "wire_value Fire = 0x10"
| "wire_value Stop = 0x20"
| "wire_value GetStatus = 0x40"

definition encode :: "command \<Rightarrow> uint8 list" where
  "encode c = [0x00, wire_value c]"

text \<open>The decoder of the specification: each flag is \<open>(byte & mask) != 0\<close>.\<close>

record status_report =
  down_limit :: bool
  up_limit :: bool
  left_limit :: bool
  right_limit :: bool
  fired :: bool

definition decode :: "uint8 \<Rightarrow> status_report" where
  "decode byte =
     \<lparr>down_limit = (byte AND 0x01 \<noteq> 0),
      up_limit = (byte AND 0x02 \<noteq> 0),
      left_limit = (byte AND 0x04 \<noteq> 0),
      right_limit = (byte AND 0x08 \<noteq> 0),
      fired = (byte AND 0x10 \<noteq> 0)\<rparr>"

text \<open>The five lines the status query prints for a report.\<close>

definition render :: "status_report \<Rightarrow> string" where
  "render r =
     line (''Tilt up limit:      '' @ truth (up_limit r)) @
     line (''Tilt down limit:    '' @ truth (down_limit r)) @
     line (''Pan left limit:     '' @ truth (left_limit r)) @
     line (''Pan right limit:    '' @ truth (right_limit r)) @
     line (''Fire complete:      '' @ truth (fired r))"

text \<open>
  One successful status poll that read the byte \<open>b\<close>, and a run of them. The
  events a call added to the trace are those after the ones it started with.
\<close>

definition poll :: "uint8 \<Rightarrow> event list" where
  "poll b = [Hid_write (encode GetStatus) True, Hid_read (Read_byte b)]"

definition polls :: "uint8 list \<Rightarrow> event list" where
  "polls bs = concat (map poll bs)"

definition new_events :: "world \<Rightarrow> world \<Rightarrow> event list" where
  "new_events w w' = drop (length (trace w)) (trace w')"

fun io_failed :: "event \<Rightarrow> bool" where
  "io_failed (Hid_open ok) = (\<not> ok)"
| "io_failed (Hid_write f ok) = (\<not> ok)"
| "io_failed (Hid_read r) = (r = Read_failed)"
| "io_failed e = False"

fun is_sleep :: "event \<Rightarrow> bool" where
  "is_sleep (Usleep d) = True"
| "is_sleep e = False"

fun frames :: "event list \<Rightarrow> uint8 list list" where
  "frames [] = []"
| "frames (Hid_write f ok # es) = f # frames es"
| "frames (e # es) = frames es"

text \<open>
  A status byte is quiet when the fired bit is clear. \<open>scripted env nw nr bs\<close>
  says that from the \<open>nw\<close>-th write and the \<open>nr\<close>-th read on, one poll after
  the other succeeds and reads the bytes \<open>bs\<close>.
\<close>

definition quiet :: "uint8 \<Rightarrow> bool" where
  "quiet b = (\<not> fired (decode b))"

fun scripted :: "environment \<Rightarrow> nat \<Rightarrow> nat \<Rightarrow> uint8 list \<Rightarrow> bool" where
  "scripted env nw nr [] = True"
| "scripted env nw nr (b # bs) =
     (\<not> write_rc env nw < 0 \<and> read_reply env nr = Read_byte b \<and>
      scripted env (Suc nw) (Suc nr) bs)"

text \<open>
  How the polling loop can end, with the events after its successful polls, and
  how a whole run of \<open>fire_missile\<close> can end, with all its events: the state
  machine of the specification (Idle, Firing, Confirming, Stopping, Done, Failed)
  read as the traces it allows.
\<close>

datatype loop_end = Loop_running | Loop_fired | Loop_send_failed | Loop_read_failed

fun loop_tail :: "loop_end \<Rightarrow> event list" where
  "loop_tail Loop_running = []"
| "loop_tail Loop_fired = []"
| "loop_tail Loop_send_failed =
     [Hid_write (encode GetStatus) False,
      Stderr (line ''Output report write failed''),
      Stderr (line ''Failed to send command to fetch status''),
      Stderr (line ''Failed to get status'')]"
| "loop_tail Loop_read_failed =
     [Hid_write (encode GetStatus) True, Hid_read Read_failed,
      Stderr (line ''Failed to read input report''),
      Stderr (line ''Failed to get status'')]"

fun loop_result :: "loop_end \<Rightarrow> int option" where
  "loop_result Loop_running = None"
| "loop_result Loop_fired = Some 0"
| "loop_result Loop_send_failed = Some (- 1)"
| "loop_result Loop_read_failed = Some (- 1)"

fun loop_bytes :: "loop_end \<Rightarrow> uint8 list \<Rightarrow> bool" where
  "loop_bytes Loop_fired bs = (bs \<noteq> [] \<and> list_all quiet (butlast bs) \<and> \<not> quiet (last bs))"
| "loop_bytes e bs = list_all quiet bs"

datatype fire_end =
    Fire_send_failed
  | Fire_running
  | Fire_done
  | Fire_stop_failed
  | Fire_poll_send_failed
  | Fire_poll_read_failed

fun fire_events :: "uint8 list \<Rightarrow> fire_end \<Rightarrow> event list" where
  "fire_events bs Fire_send_failed =
     [Hid_write (encode Fire) False,
      Stderr (line ''Output report write failed''),
      Stderr (line ''Failed to perform requested movement'')]"
| "fire_events bs Fire_running = Hid_write (encode Fire) True # polls bs"
| "fire_events bs Fire_done =
     Hid_write (encode Fire) True # polls bs @
     [Usleep 500000, Hid_write (encode Stop) True]"
| "fire_events bs Fire_stop_failed =
     Hid_write (encode Fire) True # polls bs @
     [Usleep 500000, Hid_write (encode Stop) False,
      Stderr (line ''Output report write failed''),
      Stderr (line ''Failed to stop firing'')]"
| "fire_events bs Fire_poll_send_failed =
     Hid_write (encode Fire) True # polls bs @ loop_tail Loop_send_failed"
| "fire_events bs Fire_poll_read_failed =
     Hid_write (encode Fire) True # polls bs @ loop_tail Loop_read_failed"

fun fire_result :: "fire_end \<Rightarrow> int option" where
  "fire_result Fire_running = None"
| "fire_result Fire_done = Some 0"
| "fire_result e = Some (- 1)"

fun fire_bytes :: "fire_end \<Rightarrow> uint8 list \<Rightarrow> bool" where
  "fire_bytes Fire_send_failed bs = (bs = [])"
| "fire_bytes Fire_done bs = loop_bytes Loop_fired bs"
| "fire_bytes Fire_stop_failed bs = loop_bytes Loop_fired bs"
| "fire_bytes e bs = list_all quiet bs"

text \<open>A status poll failed: the GetStatus send, or the read after it.\<close>

definition poll_failed :: "event list \<Rightarrow> bool" where
  "poll_failed es =
     (Hid_write (encode GetStatus) False \<in> set es \<or> Hid_read Read_failed \<in> set es)"

text \<open>
  The same for a movement and for a status query, and for the three actions as
  \<open>main\<close> runs them: after a failed action \<open>main\<close> adds a message of its own.
\<close>

datatype move_end = Move_send_failed | Move_stop_failed | Move_done

fun move_events :: "direction \<Rightarrow> useconds \<Rightarrow> move_end \<Rightarrow> event list" where
  "move_events dir d Move_send_failed =
     [Hid_write (encode (move_command dir)) False,
      Stderr (line ''Output report write failed''),
      Stderr (line ''Failed to perform requested movement'')]"
| "move_events dir d Move_stop_failed =
     [Hid_write (encode (move_command dir)) True, Usleep d,
      Hid_write (encode Stop) False,
      Stderr (line ''Output report write failed''),
      Stderr (line ''Failed to stop movement'')]"
| "move_events dir d Move_done =
     [Hid_write (encode (move_command dir)) True, Usleep d,
      Hid_write (encode Stop) True]"

datatype status_end = Status_send_failed | Status_read_failed | Status_done uint8

fun status_events :: "status_end \<Rightarrow> event list" where
  "status_events Status_send_failed =
     [Hid_write (encode GetStatus) False,
      Stderr (line ''Output report write failed''),
      Stderr (line ''Failed to send command to fetch status''),
      Stderr (line ''Failed to retrieve status information'')]"
| "status_events Status_read_failed =
     [Hid_write (encode GetStatus) True, Hid_read Read_failed,
      Stderr (line ''Failed to read input report''),
      Stderr (line ''Failed to retrieve status information'')]"
| "status_events (Status_done b) =
     [Hid_write (encode GetStatus) True, Hid_read (Read_byte b),
      Stdout (render (decode b))]"

datatype action =
    Move_action direction useconds move_end
  | Fire_action "uint8 list" fire_end
  | Status_action status_end

fun action_ok :: "action \<Rightarrow> bool" where
  "action_ok (Move_action dir d e) = (e = Move_done)"
| "action_ok (Fire_action bs e) = (e = Fire_done)"
| "action_ok (Status_action Status_send_failed) = False"
| "action_ok (Status_action Status_read_failed) = False"
| "action_ok (Status_action (Status_done b)) = True"

fun action_returns :: "action \<Rightarrow> bool" where
  "action_returns (Fire_action bs e) = (e \<noteq> Fire_running)"
| "action_returns act = True"

fun action_events :: "action \<Rightarrow> event list" where
  "action_events (Move_action dir d e) =
     move_events dir d e @
     (if e = Move_done then [] else [Stderr (line ''Failed to move turret'')])"
| "action_events (Fire_action bs e) =
     fire_events bs e @
     (if e = Fire_done \<or> e = Fire_running then [] else [Stderr (line ''Failed to fire missile'')])"
| "action_events (Status_action e) =
     status_events e @
     (if action_ok (Status_action e) then []
      else [Stderr (line ''Failed to print status information'')])"

text \<open>
  What \<open>main\<close> may do for the options it was given: at most one movement, the
  one asked for; at most one firing, and only when asked for and nothing failed
  before; at most one status query, under the same condition.
\<close>

fun move_part :: "arguments \<Rightarrow> action list \<Rightarrow> bool" where
  "move_part a [] = (movement a = MOVEMENT_NONE)"
| "move_part a [Move_action dir d e] =
     (movement a = movement_of dir \<and> d = movement_duration a)"
| "move_part a acts = False"

fun fire_part :: "arguments \<Rightarrow> bool \<Rightarrow> action list \<Rightarrow> bool" where
  "fire_part a before_ok [] = (\<not> (fire a \<and> before_ok))"
| "fire_part a before_ok [Fire_action bs e] = (fire a \<and> before_ok \<and> fire_bytes e bs)"
| "fire_part a before_ok acts = False"

fun status_part :: "arguments \<Rightarrow> bool \<Rightarrow> action list \<Rightarrow> bool" where
  "status_part a before_ok [] = (\<not> (display_status a \<and> before_ok))"
| "status_part a before_ok [Status_action e] = (display_status a \<and> before_ok)"
| "status_part a before_ok acts = False"

fun is_message :: "event \<Rightarrow> bool" where
  "is_message (Stderr s) = True"
| "is_message Argp_usage = True"
| "is_message e = False"

text \<open>
  The active-movement monitor: a Move or Fire frame starts a movement, a Stop
  frame ends it, and a Move or Fire frame written while a movement is active is
  a violation.
\<close>

datatype motion = Idle | Active | Violated

definition starts_motion :: "uint8 list \<Rightarrow> bool" where
  "starts_motion f = (f \<in> set (map encode [MoveDown, MoveUp, MoveLeft, MoveRight, Fire]))"

fun motion_step :: "motion \<Rightarrow> event \<Rightarrow> motion" where
  "motion_step s (Hid_write f ok) =
     (if s = Violated then Violated
      else if starts_motion f then (if s = Active then Violated else Active)
      else if f = encode Stop then Idle
      else s)"
| "motion_step s e = s"

text \<open>The frames the wire protocol knows: the encodings of the seven commands.\<close>

definition is_command_frame :: "uint8 list \<Rightarrow> bool" where
  "is_command_frame f =
     (f \<in> set (map encode [MoveDown, MoveUp, MoveLeft, MoveRight, Fire, Stop, GetStatus]))"

text \<open>
  Mock transports for the concrete runs: every write succeeds against all three;
  the first reports the fired bit on the fourth poll, the second fails the
  second read, the third always reads the byte 0x05.
\<close>

definition mock_env :: environment where
  "mock_env =
     \<lparr>open_ok = True, write_rc = (\<lambda>k. 2),
      read_reply = (\<lambda>k. Read_byte (if k < 3 then 0x00 else 0x10)), stack_junk = 0xAA\<rparr>"

definition mock_read_fails :: environment where
  "mock_read_fails =
     \<lparr>open_ok = True, write_rc = (\<lambda>k. 2),
      read_reply = (\<lambda>k. if k = 1 then Read_failed else Read_byte 0x00), stack_junk = 0xAA\<rparr>"

definition mock_limits :: environment where
  "mock_limits =
     \<lparr>open_ok = True, write_rc = (\<lambda>k. 2),
      read_reply = (\<lambda>k. Read_byte 0x05), stack_junk = 0xAA\<rparr>"

section \<open>Sending, status query and movement, call by call\<close>

lemmas cmd_defs = CMD_MOVE_DOWN_def CMD_MOVE_UP_def CMD_MOVE_LEFT_def CMD_MOVE_RIGHT_def
  CMD_FIRE_def CMD_STOP_def CMD_GET_STATUS_def

lemmas status_defs = STATUS_DOWN_LIMIT_def STATUS_UP_LIMIT_def STATUS_LEFT_LIMIT_def
  STATUS_RIGHT_LIMIT_def STATUS_DEVICE_FIRED_def

lemma command_macro_wire: "command_macro c = wire_value c"
  by (cases c) (simp_all add: cmd_defs)

lemma send_command_eq:
  "send_command env cmd w =
     (if write_rc env (writes w) < 0
      then (- 1, w\<lparr>writes := Suc (writes w),
                     trace := trace w @ [Hid_write [0, cmd] False,
                                         Stderr (line ''Output report write failed'')]\<rparr>)
      else (0, w\<lparr>writes := Suc (writes w), trace := trace w @ [Hid_write [0, cmd] True]\<rparr>))"
  by (simp add: send_command_def hid_write_def emit_def fprintf_stderr_def Let_def)

lemma send_macro_eq:
  "send_command env (command_macro c) w =
     (if write_rc env (writes w) < 0
      then (- 1, w\<lparr>writes := Suc (writes w),
                     trace := trace w @ [Hid_write (encode c) False,
                                         Stderr (line ''Output report write failed'')]\<rparr>)
      else (0, w\<lparr>writes := Suc (writes w), trace := trace w @ [Hid_write (encode c) True]\<rparr>))"
  by (simp add: send_command_eq encode_def command_macro_wire)

lemma get_status_eq:
  "get_status env status w =
     (if write_rc env (writes w) < 0
      then (- 1, status, w\<lparr>writes := Suc (writes w),
             trace := trace w @ [Hid_write (encode GetStatus) False,
                       Stderr (line ''Output report write failed''),
                       Stderr (line ''Failed to send command to fetch status'')]\<rparr>)
      else (case read_reply env (reads w) of
              Read_failed \<Rightarrow>
                (- 1, status, w\<lparr>writes := Suc (writes w), reads := Suc (reads w),
                   trace := trace w @ [Hid_write (encode GetStatus) True, Hid_read Read_failed,
                       Stderr (line ''Failed to read input report'')]\<rparr>)
            | Read_byte b \<Rightarrow>
                (0, b, w\<lparr>writes := Suc (writes w), reads := Suc (reads w),
                   trace := trace w @ poll b\<rparr>)))"
  using send_macro_eq [of env GetStatus w]
  by (simp add: get_status_def hid_read_def emit_def fprintf_stderr_def Let_def poll_def
      split: read_reply.split)

lemma print_status_eq:
  "print_status env w =
     (if write_rc env (writes w) < 0
      then (- 1, w\<lparr>writes := Suc (writes w),
             trace := trace w @ [Hid_write (encode GetStatus) False,
                       Stderr (line ''Output report write failed''),
                       Stderr (line ''Failed to send command to fetch status''),
                       Stderr (line ''Failed to retrieve status information'')]\<rparr>)
      else (case read_reply env (reads w) of
              Read_failed \<Rightarrow>
                (- 1, w\<lparr>writes := Suc (writes w), reads := Suc (reads w),
                   trace := trace w @ [Hid_write (encode GetStatus) True, Hid_read Read_failed,
                       Stderr (line ''Failed to read input report''),
                       Stderr (line ''Failed to retrieve status information'')]\<rparr>)
            | Read_byte b \<Rightarrow>
                (0, w\<lparr>writes := Suc (writes w), reads := Suc (reads w),
                   trace := trace w @ [Hid_write (encode GetStatus) True, Hid_read (Read_byte b),
                       Stdout (render (decode b))]\<rparr>)))"
  by (simp add: print_status_def get_status_eq fprintf_stderr_def printf_def emit_def poll_def
      render_def decode_def status_defs split: read_reply.split)

lemma move_turret_eq:
  "move_turret env (movement_of dir) duration w =
     (if write_rc env (writes w) < 0
      then (- 1, w\<lparr>writes := Suc (writes w),
             trace := trace w @ [Hid_write (encode (move_command dir)) False,
                       Stderr (line ''Output report write failed''),
                       Stderr (line ''Failed to perform requested movement'')]\<rparr>)
      else if write_rc env (Suc (writes w)) < 0
      then (- 1, w\<lparr>writes := Suc (Suc (writes w)),
             trace := trace w @ [Hid_write (encode (move_command dir)) True, Usleep duration,
                       Hid_write (encode Stop) False,
                       Stderr (line ''Output report write failed''),
                       Stderr (line ''Failed to stop movement'')]\<rparr>)
      else (0, w\<lparr>writes := Suc (Suc (writes w)),
             trace := trace w @ [Hid_write (encode (move_command dir)) True, Usleep duration,
                       Hid_write (encode Stop) True]\<rparr>))"
  using send_macro_eq [of env "move_command dir" w] send_macro_eq [of env Stop]
  by (cases dir) (simp_all add: move_turret_def usleep_def fprintf_stderr_def emit_def)

text \<open>
  Claim C4. The status query sends one GetStatus frame and nothing else to the
  device; when the send succeeds it reads once, and when the read delivers a
  byte it prints the five flags of that byte, each flag being the byte masked
  with DownLimit 0x01, UpLimit 0x02, LeftLimit 0x04, RightLimit 0x08 or Fired
  0x10 and compared with zero, for every one of the 256 bytes. It returns 0 in
  that case and - 1 when the send or the read fails. The byte 0x05 decodes to
  down_limit and left_limit only, and the query prints it so.
\<close>

theorem print_status_decodes:
  "print_status env w =
     (if write_rc env (writes w) < 0
      then (- 1, w\<lparr>writes := Suc (writes w),
             trace := trace w @ [Hid_write [0x00, 0x40] False,
                       Stderr (line ''Output report write failed''),
                       Stderr (line ''Failed to send command to fetch status''),
                       Stderr (line ''Failed to retrieve status information'')]\<rparr>)
      else (case read_reply env (reads w) of
              Read_failed \<Rightarrow>
                (- 1, w\<lparr>writes := Suc (writes w), reads := Suc (reads w),
                   trace := trace w @ [Hid_write [0x00, 0x40] True, Hid_read Read_failed,
                       Stderr (line ''Failed to read input report''),
                       Stderr (line ''Failed to retrieve status information'')]\<rparr>)
            | Read_byte b \<Rightarrow>
                (0, w\<lparr>writes := Suc (writes w), reads := Suc (reads w),
                   trace := trace w @ [Hid_write [0x00, 0x40] True, Hid_read (Read_byte b),
                       Stdout (render (decode b))]\<rparr>)))
   \<and> (fst (print_status env w) = 0) =
       (\<not> write_rc env (writes w) < 0 \<and> read_reply env (reads w) \<noteq> Read_failed)
   \<and> decode 0x05 =
       \<lparr>down_limit = True, up_limit = False, left_limit = True, right_limit = False,
        fired = False\<rparr>
   \<and> print_status mock_limits world0 =
       (0, \<lparr>writes = 1, reads = 1,
          trace = [Hid_write [0x00, 0x40] True, Hid_read (Read_byte 0x05),
                   Stdout (line ''Tilt up limit:      false'' @
                           line ''Tilt down limit:    true'' @
                           line ''Pan left limit:     true'' @
                           line ''Pan right limit:    false'' @
                           line ''Fire complete:      false'')]\<rparr>)"
proof -
  have limits: "print_status mock_limits world0 =
       (0, \<lparr>writes = 1, reads = 1,
          trace = [Hid_write [0x00, 0x40] True, Hid_read (Read_byte 0x05),
                   Stdout (line ''Tilt up limit:      false'' @
                           line ''Tilt down limit:    true'' @
                           line ''Pan left limit:     true'' @
                           line ''Pan right limit:    false'' @
                           line ''Fire complete:      false'')]\<rparr>)"
    by code_simp
  show ?thesis
    unfolding limits
    by (simp add: print_status_eq encode_def decode_def split: read_reply.split)
qed

text \<open>
  Claim C2. For each of the four directions, \<open>move_turret\<close> writes the Move
  frame of that direction; when that write fails it is the only write, Stop is
  not attempted and the result is - 1; otherwise the program sleeps for the
  duration it was given and writes the Stop frame. The result is 0 exactly when
  both writes succeed.
\<close>

theorem move_turret_frames:
  "move_turret env (movement_of dir) duration w =
     (if write_rc env (writes w) < 0
      then (- 1, w\<lparr>writes := Suc (writes w),
             trace := trace w @ [Hid_write [0x00, wire_value (move_command dir)] False,
                       Stderr (line ''Output report write failed''),
                       Stderr (line ''Failed to perform requested movement'')]\<rparr>)
      else if write_rc env (Suc (writes w)) < 0
      then (- 1, w\<lparr>writes := Suc (Suc (writes w)),
             trace := trace w @ [Hid_write [0x00, wire_value (move_command dir)] True,
                       Usleep duration,
                       Hid_write [0x00, 0x20] False,
                       Stderr (line ''Output report write failed''),
                       Stderr (line ''Failed to stop movement'')]\<rparr>)
      else (0, w\<lparr>writes := Suc (Suc (writes w)),
             trace := trace w @ [Hid_write [0x00, wire_value (move_command dir)] True,
                       Usleep duration,
                       Hid_write [0x00, 0x20] True]\<rparr>))
   \<and> (fst (move_turret env (movement_of dir) duration w) = 0) =
       (\<not> write_rc env (writes w) < 0 \<and> \<not> write_rc env (Suc (writes w)) < 0)
   \<and> map (wire_value \<circ> move_command) [Up, Down, Left, Right] = [0x02, 0x01, 0x04, 0x08]"
  by (simp add: move_turret_eq encode_def)

theorem move_turret_frames_witness:
  "move_turret mock_env MOVEMENT_PAN_LEFT 250000 world0 =
     (0, \<lparr>writes = 2, reads = 0,
        trace = [Hid_write [0x00, 0x04] True, Usleep 250000, Hid_write [0x00, 0x20] True]\<rparr>)
   \<and> move_turret (mock_env\<lparr>write_rc := (\<lambda>k. - 1)\<rparr>) MOVEMENT_TILT_UP 250000 world0 =
     (- 1, \<lparr>writes = 1, reads = 0,
        trace = [Hid_write [0x00, 0x02] False,
                 Stderr (line ''Output report write failed''),
                 Stderr (line ''Failed to perform requested movement'')]\<rparr>)"
  using move_turret_frames [of mock_env Left 250000 world0]
    move_turret_frames [of "mock_env\<lparr>write_rc := (\<lambda>k. - 1)\<rparr>" Up 250000 world0]
  by (simp add: mock_env_def world0_def)

section \<open>Firing: the traces of a run\<close>

lemma polls_Nil: "polls [] = []"
  by (simp add: polls_def)

lemma polls_Cons: "polls (b # bs) = poll b @ polls bs"
  by (simp add: polls_def)

lemma polls_append: "polls (xs @ ys) = polls xs @ polls ys"
  by (simp add: polls_def)

lemma quiet_iff: "quiet b = (b AND STATUS_DEVICE_FIRED = 0)"
  by (simp add: quiet_def decode_def status_defs)

lemma fire_loop_shape:
  "fire_loop n env st w = (r, w') \<Longrightarrow>
   \<exists>bs e. trace w' = trace w @ polls bs @ loop_tail e \<and> r = loop_result e \<and> loop_bytes e bs"
proof (induction n arbitrary: st w)
  case 0
  then have "trace w' = trace w @ polls [] @ loop_tail Loop_running"
    and "r = loop_result Loop_running" and "loop_bytes Loop_running []"
    by (simp_all add: polls_Nil)
  then show ?case by blast
next
  case (Suc n)
  show ?case
  proof (cases "write_rc env (writes w) < 0")
    case True
    with Suc.prems have "trace w' = trace w @ polls [] @ loop_tail Loop_send_failed"
      and "r = loop_result Loop_send_failed" and "loop_bytes Loop_send_failed []"
      by (auto simp: get_status_eq fprintf_stderr_def emit_def polls_Nil)
    then show ?thesis by blast
  next
    case sent: False
    show ?thesis
    proof (cases "read_reply env (reads w)")
      case Read_failed
      with sent Suc.prems have "trace w' = trace w @ polls [] @ loop_tail Loop_read_failed"
        and "r = loop_result Loop_read_failed" and "loop_bytes Loop_read_failed []"
        by (auto simp: get_status_eq fprintf_stderr_def emit_def polls_Nil)
      then show ?thesis by blast
    next
      case (Read_byte b)
      let ?w1 = "w\<lparr>writes := Suc (writes w), reads := Suc (reads w), trace := trace w @ poll b\<rparr>"
      show ?thesis
      proof (cases "quiet b")
        case True
        with sent Read_byte Suc.prems have "fire_loop n env b ?w1 = (r, w')"
          by (simp add: get_status_eq quiet_iff)
        from Suc.IH [OF this] obtain bs e where
          t: "trace w' = trace ?w1 @ polls bs @ loop_tail e" and
          r: "r = loop_result e" and b: "loop_bytes e bs"
          by blast
        from t have "trace w' = trace w @ polls (b # bs) @ loop_tail e"
          by (simp add: polls_Cons)
        moreover from b True have "loop_bytes e (b # bs)"
          by (cases e) simp_all
        ultimately show ?thesis using r by blast
      next
        case False
        with sent Read_byte Suc.prems have "trace w' = trace w @ polls [b] @ loop_tail Loop_fired"
          and "r = loop_result Loop_fired" and "loop_bytes Loop_fired [b]"
          by (auto simp: get_status_eq quiet_iff polls_Cons polls_Nil)
        then show ?thesis by blast
      qed
    qed
  qed
qed

lemmas send_fire_eq = send_macro_eq [of _ Fire, unfolded command_macro.simps]
lemmas send_stop_eq = send_macro_eq [of _ Stop, unfolded command_macro.simps]

lemma fire_missile_shape:
  assumes "fire_missile fuel env w = (r, w')"
  shows "\<exists>bs e. trace w' = trace w @ fire_events bs e \<and> r = fire_result e \<and> fire_bytes e bs"
proof (cases "write_rc env (writes w) < 0")
  case True
  with assms have "trace w' = trace w @ fire_events [] Fire_send_failed"
    and "r = fire_result Fire_send_failed" and "fire_bytes Fire_send_failed []"
    by (auto simp: fire_missile_def send_fire_eq fprintf_stderr_def emit_def)
  then show ?thesis by blast
next
  case sent: False
  let ?w1 = "w\<lparr>writes := Suc (writes w), trace := trace w @ [Hid_write (encode Fire) True]\<rparr>"
  obtain r1 w2 where loop: "fire_loop fuel env (stack_junk env) ?w1 = (r1, w2)"
    by (cases "fire_loop fuel env (stack_junk env) ?w1")
  from fire_loop_shape [OF loop] obtain bs e where
    t: "trace w2 = trace ?w1 @ polls bs @ loop_tail e" and
    r: "r1 = loop_result e" and b: "loop_bytes e bs"
    by blast
  have step: "fire_missile fuel env w =
    (case r1 of None \<Rightarrow> (None, w2)
     | Some ret \<Rightarrow>
        if ret = 0
        then (case send_command env CMD_STOP (usleep FIRE_HOLD_TIME_US w2) of
                (rc', w3) \<Rightarrow>
                  if rc' \<noteq> 0
                  then (Some (- 1), fprintf_stderr (line ''Failed to stop firing'') w3)
                  else (Some ret, w3))
        else (Some ret, w2))"
    using sent loop by (simp add: fire_missile_def send_fire_eq)
  show ?thesis
  proof (cases e)
    case Loop_running
    with assms step t r b have "trace w' = trace w @ fire_events bs Fire_running"
      and "r = fire_result Fire_running" and "fire_bytes Fire_running bs"
      by auto
    then show ?thesis by blast
  next
    case Loop_fired
    show ?thesis
    proof (cases "write_rc env (writes w2) < 0")
      case True
      with Loop_fired assms step t r b have "trace w' = trace w @ fire_events bs Fire_stop_failed"
        and "r = fire_result Fire_stop_failed" and "fire_bytes Fire_stop_failed bs"
        by (auto simp: send_stop_eq usleep_def emit_def fprintf_stderr_def FIRE_HOLD_TIME_US_def)
      then show ?thesis by blast
    next
      case False
      with Loop_fired assms step t r b have "trace w' = trace w @ fire_events bs Fire_done"
        and "r = fire_result Fire_done" and "fire_bytes Fire_done bs"
        by (auto simp: send_stop_eq usleep_def emit_def fprintf_stderr_def FIRE_HOLD_TIME_US_def)
      then show ?thesis by blast
    qed
  next
    case Loop_send_failed
    with assms step t r b have "trace w' = trace w @ fire_events bs Fire_poll_send_failed"
      and "r = fire_result Fire_poll_send_failed" and "fire_bytes Fire_poll_send_failed bs"
      by auto
    then show ?thesis by blast
  next
    case Loop_read_failed
    with assms step t r b have "trace w' = trace w @ fire_events bs Fire_poll_read_failed"
      and "r = fire_result Fire_poll_read_failed" and "fire_bytes Fire_poll_read_failed bs"
      by auto
    then show ?thesis by blast
  qed
qed

text \<open>Runs against an environment whose next answers are known.\<close>

lemma fire_loop_run:
  "scripted env (writes w) (reads w) bs \<Longrightarrow> list_all quiet bs \<Longrightarrow>
   fire_loop (length bs + n) env st w =
   fire_loop n env (last (st # bs))
     (w\<lparr>writes := writes w + length bs, reads := reads w + length bs,
        trace := trace w @ polls bs\<rparr>)"
proof (induction bs arbitrary: st w)
  case Nil
  then show ?case by (simp add: polls_Nil)
next
  case (Cons b bs)
  let ?w1 = "w\<lparr>writes := Suc (writes w), reads := Suc (reads w), trace := trace w @ poll b\<rparr>"
  from Cons.prems have "scripted env (writes ?w1) (reads ?w1) bs" and "list_all quiet bs"
    by simp_all
  from Cons.IH [OF this, of b] Cons.prems show ?case
    by (simp add: get_status_eq quiet_iff polls_Cons)
qed

lemma fire_loop_fired:
  "\<not> write_rc env (writes w) < 0 \<Longrightarrow> read_reply env (reads w) = Read_byte b \<Longrightarrow> \<not> quiet b \<Longrightarrow>
   fire_loop (Suc n) env st w =
   (Some 0, w\<lparr>writes := Suc (writes w), reads := Suc (reads w), trace := trace w @ poll b\<rparr>)"
  by (simp add: get_status_eq quiet_iff)

lemma fire_loop_send_failed:
  "write_rc env (writes w) < 0 \<Longrightarrow>
   fire_loop (Suc n) env st w =
   (Some (- 1), w\<lparr>writes := Suc (writes w), trace := trace w @ loop_tail Loop_send_failed\<rparr>)"
  by (simp add: get_status_eq fprintf_stderr_def emit_def)

lemma fire_loop_read_failed:
  "\<not> write_rc env (writes w) < 0 \<Longrightarrow> read_reply env (reads w) = Read_failed \<Longrightarrow>
   fire_loop (Suc n) env st w =
   (Some (- 1), w\<lparr>writes := Suc (writes w), reads := Suc (reads w),
                  trace := trace w @ loop_tail Loop_read_failed\<rparr>)"
  by (simp add: get_status_eq fprintf_stderr_def emit_def)

lemma scripted_append:
  "scripted env nw nr (xs @ ys) =
   (scripted env nw nr xs \<and> scripted env (nw + length xs) (nr + length xs) ys)"
  by (induction xs arbitrary: nw nr) simp_all

lemma fire_missile_done:
  assumes fire: "\<not> write_rc env (writes w) < 0"
    and script: "scripted env (Suc (writes w)) (reads w) (bs @ [b])"
    and quiet: "list_all quiet bs" and fired: "\<not> quiet b"
    and stop: "\<not> write_rc env (writes w + length bs + 2) < 0"
    and fuel: "length bs < fuel"
  shows "fire_missile fuel env w =
    (Some 0, w\<lparr>writes := writes w + length bs + 3, reads := reads w + length bs + 1,
               trace := trace w @ Hid_write (encode Fire) True # polls (bs @ [b]) @
                        [Usleep 500000, Hid_write (encode Stop) True]\<rparr>)"
proof -
  let ?w1 = "w\<lparr>writes := Suc (writes w), trace := trace w @ [Hid_write (encode Fire) True]\<rparr>"
  let ?w2 = "?w1\<lparr>writes := writes ?w1 + length bs, reads := reads ?w1 + length bs,
        trace := trace ?w1 @ polls bs\<rparr>"
  from fuel obtain n where n: "fuel = length bs + Suc n"
    by (metis add_Suc_right less_iff_Suc_add)
  from script have s1: "scripted env (writes ?w1) (reads ?w1) bs"
    and s2: "\<not> write_rc env (writes ?w2) < 0" "read_reply env (reads ?w2) = Read_byte b"
    by (simp_all add: scripted_append)
  have "fire_loop fuel env (stack_junk env) ?w1 = fire_loop (Suc n) env (last (stack_junk env # bs)) ?w2"
    unfolding n by (rule fire_loop_run [OF s1 quiet])
  also have "\<dots> = (Some 0, ?w2\<lparr>writes := Suc (writes ?w2), reads := Suc (reads ?w2),
       trace := trace ?w2 @ poll b\<rparr>)"
    by (rule fire_loop_fired [OF s2 fired])
  finally show ?thesis
    using fire stop
    by (simp add: fire_missile_def send_fire_eq send_stop_eq usleep_def emit_def
        FIRE_HOLD_TIME_US_def polls_append polls_Cons polls_Nil)
qed

lemma fire_missile_poll_fails:
  assumes fire: "\<not> write_rc env (writes w) < 0"
    and script: "scripted env (Suc (writes w)) (reads w) bs"
    and quiet: "list_all quiet bs"
    and fails: "write_rc env (writes w + length bs + 1) < 0 \<or>
                read_reply env (reads w + length bs) = Read_failed"
    and fuel: "length bs < fuel"
  shows "fire_missile fuel env w =
    (Some (- 1),
     w\<lparr>writes := writes w + length bs + 2,
        reads := (if write_rc env (writes w + length bs + 1) < 0
                  then reads w + length bs else reads w + length bs + 1),
        trace := trace w @ Hid_write (encode Fire) True # polls bs @
                 loop_tail (if write_rc env (writes w + length bs + 1) < 0
                            then Loop_send_failed else Loop_read_failed)\<rparr>)"
proof -
  let ?w1 = "w\<lparr>writes := Suc (writes w), trace := trace w @ [Hid_write (encode Fire) True]\<rparr>"
  let ?w2 = "?w1\<lparr>writes := writes ?w1 + length bs, reads := reads ?w1 + length bs,
        trace := trace ?w1 @ polls bs\<rparr>"
  from fuel obtain n where n: "fuel = length bs + Suc n"
    by (metis add_Suc_right less_iff_Suc_add)
  from script have s1: "scripted env (writes ?w1) (reads ?w1) bs"
    by simp
  have run: "fire_loop fuel env (stack_junk env) ?w1 =
      fire_loop (Suc n) env (last (stack_junk env # bs)) ?w2"
    unfolding n by (rule fire_loop_run [OF s1 quiet])
  show ?thesis
  proof (cases "write_rc env (writes w + length bs + 1) < 0")
    case True
    then have "write_rc env (writes ?w2) < 0" by simp
    from run fire_loop_send_failed [OF this] fire True show ?thesis
      by (simp add: fire_missile_def send_fire_eq)
  next
    case False
    with fails have "\<not> write_rc env (writes ?w2) < 0" "read_reply env (reads ?w2) = Read_failed"
      by simp_all
    from run fire_loop_read_failed [OF this] fire False show ?thesis
      by (simp add: fire_missile_def send_fire_eq)
  qed
qed

section \<open>Firing: what a run does\<close>

lemma new_events_append: "trace w' = trace w @ es \<Longrightarrow> new_events w w' = es"
  by (simp add: new_events_def)

lemma no_failure_in_polls: "\<not> list_ex io_failed (polls bs)"
  by (induction bs) (simp_all add: polls_Nil polls_Cons poll_def)

lemma no_sleep_in_polls: "filter is_sleep (polls bs) = []"
  by (induction bs) (simp_all add: polls_Nil polls_Cons poll_def)

lemma frames_append: "frames (xs @ ys) = frames xs @ frames ys"
  by (induction xs rule: frames.induct) simp_all

lemma frames_polls: "frames (polls bs) = replicate (length bs) (encode GetStatus)"
  by (induction bs) (simp_all add: polls_Nil polls_Cons poll_def)

lemma failure_in_fire_events:
  "list_ex io_failed (fire_events bs e) = (e \<noteq> Fire_running \<and> e \<noteq> Fire_done)"
  using no_failure_in_polls [of bs] by (cases e) simp_all

lemma poll_failed_polls: "\<not> poll_failed (polls bs)"
  by (induction bs) (simp_all add: poll_failed_def polls_Nil polls_Cons poll_def)

lemma poll_failed_Cons:
  "poll_failed (e # es) =
   (e = Hid_write (encode GetStatus) False \<or> e = Hid_read Read_failed \<or> poll_failed es)"
  by (auto simp: poll_failed_def)

lemma poll_failed_append: "poll_failed (xs @ ys) = (poll_failed xs \<or> poll_failed ys)"
  by (auto simp: poll_failed_def)

lemma poll_failed_Nil: "\<not> poll_failed []"
  by (simp add: poll_failed_def)

lemma poll_failed_fire_events:
  "poll_failed (fire_events bs e) = (e = Fire_poll_send_failed \<or> e = Fire_poll_read_failed)"
  using poll_failed_polls [of bs]
  by (cases e) (simp_all add: poll_failed_Cons poll_failed_append poll_failed_Nil encode_def)

lemma quiet_simps: "quiet 0x00" "\<not> quiet 0x10"
  by (simp_all add: quiet_iff status_defs)

text \<open>
  Claim C1. Once the Fire send has succeeded, \<open>fire_missile\<close> polls (a GetStatus
  send and a read of one byte) until a status byte has the fired bit 0x10, then
  sleeps and sends Stop once. Against an environment whose polls succeed and
  read the quiet bytes \<open>bs\<close> and then a byte \<open>b\<close> with the fired bit, with
  fuel for more than \<open>length bs\<close> iterations, the run returns 0 after
  \<open>length bs + 1\<close> polls followed by one Stop. Every run that returns, returns 0
  exactly when none of its writes and reads failed, and a run that returns 0
  has that shape. (With three quiet polls and a fourth that reports fired: four
  polls, then one Stop, result 0.)
\<close>

theorem fire_missile_polls_until_fired:
  "(\<not> write_rc env (writes w) < 0 \<and> scripted env (Suc (writes w)) (reads w) (bs @ [b]) \<and>
    list_all quiet bs \<and> \<not> quiet b \<and> \<not> write_rc env (writes w + length bs + 2) < 0 \<and>
    length bs < fuel \<longrightarrow>
    fire_missile fuel env w =
      (Some 0, w\<lparr>writes := writes w + length bs + 3, reads := reads w + length bs + 1,
                 trace := trace w @ Hid_write [0x00, 0x10] True # polls (bs @ [b]) @
                          [Usleep 500000, Hid_write [0x00, 0x20] True]\<rparr>))
   \<and> (fire_missile fuel env w = (Some r, w') \<longrightarrow>
        (r = 0) = (\<not> list_ex io_failed (new_events w w')) \<and>
        (r = 0 \<longrightarrow>
          (\<exists>cs. cs \<noteq> [] \<and> list_all quiet (butlast cs) \<and> \<not> quiet (last cs) \<and>
             new_events w w' =
               Hid_write [0x00, 0x10] True # polls cs @
               [Usleep 500000, Hid_write [0x00, 0x20] True])))"
proof (intro conjI impI)
  assume "\<not> write_rc env (writes w) < 0 \<and> scripted env (Suc (writes w)) (reads w) (bs @ [b]) \<and>
    list_all quiet bs \<and> \<not> quiet b \<and> \<not> write_rc env (writes w + length bs + 2) < 0 \<and>
    length bs < fuel"
  then show "fire_missile fuel env w =
      (Some 0, w\<lparr>writes := writes w + length bs + 3, reads := reads w + length bs + 1,
                 trace := trace w @ Hid_write [0x00, 0x10] True # polls (bs @ [b]) @
                          [Usleep 500000, Hid_write [0x00, 0x20] True]\<rparr>)"
    using fire_missile_done [of env w bs b fuel] by (simp add: encode_def)
next
  assume run: "fire_missile fuel env w = (Some r, w')"
  from fire_missile_shape [OF run] obtain cs e where
    t: "trace w' = trace w @ fire_events cs e" and r: "Some r = fire_result e"
    and b: "fire_bytes e cs"
    by blast
  have n: "new_events w w' = fire_events cs e"
    by (rule new_events_append [OF t])
  from r show "(r = 0) = (\<not> list_ex io_failed (new_events w w'))"
    unfolding n failure_in_fire_events by (cases e) simp_all
  assume "r = 0"
  with r have "e = Fire_done" by (cases e) simp_all
  with n b show "\<exists>cs. cs \<noteq> [] \<and> list_all quiet (butlast cs) \<and> \<not> quiet (last cs) \<and>
             new_events w w' =
               Hid_write [0x00, 0x10] True # polls cs @
               [Usleep 500000, Hid_write [0x00, 0x20] True]"
    by (intro exI [of _ cs]) (simp add: encode_def)
qed

theorem fire_missile_polls_until_fired_witness:
  "fire_missile 4 mock_env world0 =
     (Some 0, \<lparr>writes = 6, reads = 4,
        trace = [Hid_write [0x00, 0x10] True,
                 Hid_write [0x00, 0x40] True, Hid_read (Read_byte 0x00),
                 Hid_write [0x00, 0x40] True, Hid_read (Read_byte 0x00),
                 Hid_write [0x00, 0x40] True, Hid_read (Read_byte 0x00),
                 Hid_write [0x00, 0x40] True, Hid_read (Read_byte 0x10),
                 Usleep 500000, Hid_write [0x00, 0x20] True]\<rparr>)
   \<and> \<not> list_ex io_failed (new_events world0 (snd (fire_missile 4 mock_env world0)))"
proof -
  have hyps: "\<not> write_rc mock_env (writes world0) < 0 \<and>
    scripted mock_env (Suc (writes world0)) (reads world0) ([0x00, 0x00, 0x00] @ [0x10]) \<and>
    list_all quiet [0x00, 0x00, 0x00] \<and> \<not> quiet 0x10 \<and>
    \<not> write_rc mock_env (writes world0 + length [0x00, 0x00, 0x00 :: uint8] + 2) < 0 \<and>
    length [0x00, 0x00, 0x00 :: uint8] < 4"
    by (simp add: mock_env_def world0_def quiet_simps)
  note inst = fire_missile_polls_until_fired [of mock_env world0 "[0x00, 0x00, 0x00]" "0x10" 4]
  from inst [THEN conjunct1, rule_format, OF hyps]
  have run: "fire_missile 4 mock_env world0 =
     (Some 0, \<lparr>writes = 6, reads = 4,
        trace = [Hid_write [0x00, 0x10] True,
                 Hid_write [0x00, 0x40] True, Hid_read (Read_byte 0x00),
                 Hid_write [0x00, 0x40] True, Hid_read (Read_byte 0x00),
                 Hid_write [0x00, 0x40] True, Hid_read (Read_byte 0x00),
                 Hid_write [0x00, 0x40] True, Hid_read (Read_byte 0x10),
                 Usleep 500000, Hid_write [0x00, 0x20] True]\<rparr>)"
    by (simp add: world0_def polls_def poll_def encode_def)
  from inst [THEN conjunct2, rule_format, OF run] run show ?thesis
    by simp
qed

text \<open>
  Claim C5. When a status poll fails, at the GetStatus send or at the read,
  \<open>fire_missile\<close> stops there: it returns - 1, every event after the failing
  call is a message on \<open>stderr\<close>, it does not sleep and it writes no Stop frame.
  Against an environment whose polls read the quiet bytes \<open>bs\<close> and whose next
  poll fails, a run with fuel for more than \<open>length bs\<close> iterations does return
  so.
\<close>

theorem fire_missile_poll_failure_aborts:
  "(\<not> write_rc env (writes w) < 0 \<and> scripted env (Suc (writes w)) (reads w) bs \<and>
    list_all quiet bs \<and>
    (write_rc env (writes w + length bs + 1) < 0 \<or>
     read_reply env (reads w + length bs) = Read_failed) \<and>
    length bs < fuel \<longrightarrow>
    fst (fire_missile fuel env w) = Some (- 1) \<and>
    poll_failed (new_events w (snd (fire_missile fuel env w))))
   \<and> (fire_missile fuel env w = (r, w') \<and> poll_failed (new_events w w') \<longrightarrow>
        r = Some (- 1) \<and>
        filter is_sleep (new_events w w') = [] \<and>
        [0x00, 0x20] \<notin> set (frames (new_events w w')) \<and>
        (\<exists>cs tail. list_all quiet cs \<and>
           new_events w w' = Hid_write [0x00, 0x10] True # polls cs @ tail \<and>
           (tail = [Hid_write [0x00, 0x40] False,
                    Stderr (line ''Output report write failed''),
                    Stderr (line ''Failed to send command to fetch status''),
                    Stderr (line ''Failed to get status'')] \<or>
            tail = [Hid_write [0x00, 0x40] True, Hid_read Read_failed,
                    Stderr (line ''Failed to read input report''),
                    Stderr (line ''Failed to get status'')])))"
proof (intro conjI impI)
  assume h: "\<not> write_rc env (writes w) < 0 \<and> scripted env (Suc (writes w)) (reads w) bs \<and>
    list_all quiet bs \<and>
    (write_rc env (writes w + length bs + 1) < 0 \<or>
     read_reply env (reads w + length bs) = Read_failed) \<and>
    length bs < fuel"
  then have run: "fire_missile fuel env w =
    (Some (- 1),
     w\<lparr>writes := writes w + length bs + 2,
        reads := (if write_rc env (writes w + length bs + 1) < 0
                  then reads w + length bs else reads w + length bs + 1),
        trace := trace w @ Hid_write (encode Fire) True # polls bs @
                 loop_tail (if write_rc env (writes w + length bs + 1) < 0
                            then Loop_send_failed else Loop_read_failed)\<rparr>)"
    by (intro fire_missile_poll_fails) simp_all
  show "fst (fire_missile fuel env w) = Some (- 1)"
    by (simp add: run)
  show "poll_failed (new_events w (snd (fire_missile fuel env w)))"
    by (simp add: run new_events_def poll_failed_Cons poll_failed_append)
next
  assume "fire_missile fuel env w = (r, w') \<and> poll_failed (new_events w w')"
  then have run: "fire_missile fuel env w = (r, w')" and failed: "poll_failed (new_events w w')"
    by simp_all
  from fire_missile_shape [OF run] obtain cs e where
    t: "trace w' = trace w @ fire_events cs e" and r: "r = fire_result e"
    and b: "fire_bytes e cs"
    by blast
  have n: "new_events w w' = fire_events cs e"
    by (rule new_events_append [OF t])
  from failed have e: "e = Fire_poll_send_failed \<or> e = Fire_poll_read_failed"
    by (simp add: n poll_failed_fire_events)
  from e r show "r = Some (- 1)"
    by auto
  from e show "filter is_sleep (new_events w w') = []"
    by (auto simp: n no_sleep_in_polls)
  from e show "[0x00, 0x20] \<notin> set (frames (new_events w w'))"
    by (auto simp: n frames_append frames_polls encode_def)
  from e b show "\<exists>cs tail. list_all quiet cs \<and>
           new_events w w' = Hid_write [0x00, 0x10] True # polls cs @ tail \<and>
           (tail = [Hid_write [0x00, 0x40] False,
                    Stderr (line ''Output report write failed''),
                    Stderr (line ''Failed to send command to fetch status''),
                    Stderr (line ''Failed to get status'')] \<or>
            tail = [Hid_write [0x00, 0x40] True, Hid_read Read_failed,
                    Stderr (line ''Failed to read input report''),
                    Stderr (line ''Failed to get status'')])"
    by (intro exI [of _ cs]) (auto simp: n encode_def)
qed

theorem fire_missile_poll_failure_aborts_witness:
  "fire_missile 9 mock_read_fails world0 =
     (Some (- 1), \<lparr>writes = 3, reads = 2,
        trace = [Hid_write [0x00, 0x10] True,
                 Hid_write [0x00, 0x40] True, Hid_read (Read_byte 0x00),
                 Hid_write [0x00, 0x40] True, Hid_read Read_failed,
                 Stderr (line ''Failed to read input report''),
                 Stderr (line ''Failed to get status'')]\<rparr>)
   \<and> filter is_sleep (new_events world0 (snd (fire_missile 9 mock_read_fails world0))) = []
   \<and> [0x00, 0x20] \<notin> set (frames (new_events world0 (snd (fire_missile 9 mock_read_fails world0))))"
proof -
  have run: "fire_missile 9 mock_read_fails world0 =
     (Some (- 1), \<lparr>writes = 3, reads = 2,
        trace = [Hid_write [0x00, 0x10] True,
                 Hid_write [0x00, 0x40] True, Hid_read (Read_byte 0x00),
                 Hid_write [0x00, 0x40] True, Hid_read Read_failed,
                 Stderr (line ''Failed to read input report''),
                 Stderr (line ''Failed to get status'')]\<rparr>)"
    by code_simp
  have failed: "poll_failed (new_events world0
     \<lparr>writes = 3, reads = 2,
        trace = [Hid_write [0x00, 0x10] True,
                 Hid_write [0x00, 0x40] True, Hid_read (Read_byte 0x00),
                 Hid_write [0x00, 0x40] True, Hid_read Read_failed,
                 Stderr (line ''Failed to read input report''),
                 Stderr (line ''Failed to get status'')]\<rparr>)"
    by (simp add: poll_failed_def new_events_def world0_def)
  have hyps: "\<not> write_rc mock_read_fails (writes world0) < 0 \<and>
    scripted mock_read_fails (Suc (writes world0)) (reads world0) [0x00] \<and>
    list_all quiet [0x00] \<and>
    (write_rc mock_read_fails (writes world0 + length [0x00 :: uint8] + 1) < 0 \<or>
     read_reply mock_read_fails (reads world0 + length [0x00 :: uint8]) = Read_failed) \<and>
    length [0x00 :: uint8] < 9"
    by (simp add: mock_read_fails_def world0_def quiet_simps)
  from fire_missile_poll_failure_aborts [THEN conjunct1, rule_format, OF hyps]
    fire_missile_poll_failure_aborts [THEN conjunct2, rule_format, OF conjI, OF run failed]
    run show ?thesis
    by simp
qed

text \<open>
  Claim C10. A run of \<open>fire_missile\<close> that returns 0 sleeps exactly once, between
  the read that showed the fired bit and the Stop write, for
  \<open>FIRE_HOLD_TIME_US\<close> = 500000 microseconds. \<open>fire_missile\<close> takes nothing from
  the command line, and the block of \<open>main\<close> that calls it behaves the same for
  any two sets of options that both ask to fire.
\<close>

theorem fire_overshoot_fixed:
  "(fire_missile fuel env w = (Some 0, w') \<longrightarrow>
      (\<exists>bs b. \<not> quiet b \<and>
         new_events w w' =
           Hid_write (encode Fire) True # polls bs @
           [Hid_write (encode GetStatus) True, Hid_read (Read_byte b),
            Usleep 500000, Hid_write (encode Stop) True]) \<and>
      filter is_sleep (new_events w w') = [Usleep 500000])
   \<and> FIRE_HOLD_TIME_US = 500000
   \<and> (fire a \<and> fire a' \<longrightarrow> main_fire fuel env a ret w = main_fire fuel env a' ret w)"
proof (intro conjI impI)
  assume run: "fire_missile fuel env w = (Some 0, w')"
  from fire_missile_shape [OF run] obtain cs e where
    t: "trace w' = trace w @ fire_events cs e" and r: "Some 0 = fire_result e"
    and b: "fire_bytes e cs"
    by blast
  from r have e: "e = Fire_done" by (cases e) simp_all
  have n: "new_events w w' = fire_events cs Fire_done"
    using new_events_append [OF t] e by simp
  from b e have "cs = butlast cs @ [last cs]" and fired: "\<not> quiet (last cs)"
    by simp_all
  then have "polls cs = polls (butlast cs) @ poll (last cs)"
    by (metis polls_append polls_Cons polls_Nil append_Nil2)
  with fired show "\<exists>bs b. \<not> quiet b \<and>
         new_events w w' =
           Hid_write (encode Fire) True # polls bs @
           [Hid_write (encode GetStatus) True, Hid_read (Read_byte b),
            Usleep 500000, Hid_write (encode Stop) True]"
    by (intro exI [of _ "butlast cs"] exI [of _ "last cs"]) (simp add: n poll_def)
  show "filter is_sleep (new_events w w') = [Usleep 500000]"
    by (simp add: n no_sleep_in_polls)
next
  show "FIRE_HOLD_TIME_US = 500000"
    by (simp add: FIRE_HOLD_TIME_US_def)
next
  assume "fire a \<and> fire a'"
  then show "main_fire fuel env a ret w = main_fire fuel env a' ret w"
    by (simp add: main_fire_def)
qed

theorem fire_overshoot_fixed_witness:
  "filter is_sleep (new_events world0 (snd (fire_missile 4 mock_env world0))) = [Usleep 500000]
   \<and> main_fire 4 mock_env (default_arguments\<lparr>fire := True\<rparr>) 0 world0 =
     main_fire 4 mock_env
       \<lparr>movement = MOVEMENT_PAN_LEFT, movement_duration = 9999000, fire = True,
        display_status = True\<rparr> 0 world0"
proof -
  have run: "fire_missile 4 mock_env world0 = (Some 0, snd (fire_missile 4 mock_env world0))"
    by code_simp
  have args: "fire (default_arguments\<lparr>fire := True\<rparr>) \<and>
    fire \<lparr>movement = MOVEMENT_PAN_LEFT, movement_duration = 9999000, fire = True,
        display_status = True\<rparr>"
    by simp
  from fire_overshoot_fixed [THEN conjunct1, rule_format, OF run]
    fire_overshoot_fixed [THEN conjunct2, THEN conjunct2, rule_format, OF args]
  show ?thesis
    by simp
qed

section \<open>The runs of \<open>main\<close>\<close>

lemma movement_cases:
  "m = MOVEMENT_NONE \<or> (\<exists>dir. m = movement_of dir)"
proof (cases m)
  case MOVEMENT_TILT_UP
  then have "m = movement_of Up" by simp
  then show ?thesis by blast
next
  case MOVEMENT_TILT_DOWN
  then have "m = movement_of Down" by simp
  then show ?thesis by blast
next
  case MOVEMENT_PAN_LEFT
  then have "m = movement_of Left" by simp
  then show ?thesis by blast
next
  case MOVEMENT_PAN_RIGHT
  then have "m = movement_of Right" by simp
  then show ?thesis by blast
qed simp

lemma movement_of_not_none: "movement_of dir \<noteq> MOVEMENT_NONE"
  by (cases dir) simp_all

lemma move_turret_shape:
  "\<exists>e. move_turret env (movement_of dir) d w =
        (if e = Move_done then 0 else - 1,
         w\<lparr>writes := (if e = Move_send_failed then Suc (writes w) else Suc (Suc (writes w))),
            trace := trace w @ move_events dir d e\<rparr>)"
proof (cases "write_rc env (writes w) < 0")
  case True
  then show ?thesis
    by (intro exI [of _ Move_send_failed]) (simp add: move_turret_eq)
next
  case first: False
  show ?thesis
  proof (cases "write_rc env (Suc (writes w)) < 0")
    case True
    with first show ?thesis
      by (intro exI [of _ Move_stop_failed]) (simp add: move_turret_eq)
  next
    case False
    with first show ?thesis
      by (intro exI [of _ Move_done]) (simp add: move_turret_eq)
  qed
qed

lemma main_move_shape:
  assumes "main_move env a EXIT_SUCCESS w = (ret, w')"
  shows "\<exists>ms. move_part a ms \<and> trace w' = trace w @ concat (map action_events ms) \<and>
              ret = (if list_all action_ok ms then EXIT_SUCCESS else EXIT_FAILURE)"
proof -
  from movement_cases [of "movement a"] show ?thesis
  proof
    assume "movement a = MOVEMENT_NONE"
    with assms have "move_part a []" and "trace w' = trace w @ concat (map action_events [])"
      and "ret = (if list_all action_ok [] then EXIT_SUCCESS else EXIT_FAILURE)"
      by (simp_all add: main_move_def)
    then show ?thesis by blast
  next
    assume "\<exists>dir. movement a = movement_of dir"
    then obtain dir where dir: "movement a = movement_of dir" ..
    from move_turret_shape [of env dir "movement_duration a" w] obtain e where
      "move_turret env (movement_of dir) (movement_duration a) w =
        (if e = Move_done then 0 else - 1,
         w\<lparr>writes := (if e = Move_send_failed then Suc (writes w) else Suc (Suc (writes w))),
            trace := trace w @ move_events dir (movement_duration a) e\<rparr>)" ..
    with assms dir have "move_part a [Move_action dir (movement_duration a) e]"
      and "trace w' = trace w @ concat (map action_events [Move_action dir (movement_duration a) e])"
      and "ret = (if list_all action_ok [Move_action dir (movement_duration a) e]
                  then EXIT_SUCCESS else EXIT_FAILURE)"
      by (auto simp: main_move_def movement_of_not_none fprintf_stderr_def emit_def
          split: if_splits)
    then show ?thesis by blast
  qed
qed

lemma main_fire_shape:
  assumes "main_fire fuel env a ret w = (r, w')"
  shows "\<exists>fs. fire_part a (ret = EXIT_SUCCESS) fs \<and>
              trace w' = trace w @ concat (map action_events fs) \<and>
              r = (if list_all action_returns fs
                   then Some (if list_all action_ok fs then ret else EXIT_FAILURE)
                   else None)"
proof (cases "fire a \<and> ret = EXIT_SUCCESS")
  case False
  with assms have "fire_part a (ret = EXIT_SUCCESS) []"
    and "trace w' = trace w @ concat (map action_events [])"
    and "r = (if list_all action_returns []
                   then Some (if list_all action_ok [] then ret else EXIT_FAILURE)
                   else None)"
    by (auto simp: main_fire_def)
  then show ?thesis by blast
next
  case True
  obtain r1 w1 where run: "fire_missile fuel env w = (r1, w1)"
    by (cases "fire_missile fuel env w")
  from fire_missile_shape [OF run] obtain bs e where
    t: "trace w1 = trace w @ fire_events bs e" and r1: "r1 = fire_result e"
    and b: "fire_bytes e bs"
    by blast
  from True b have p: "fire_part a (ret = EXIT_SUCCESS) [Fire_action bs e]"
    by simp
  from assms True run t r1
  have "trace w' = trace w @ concat (map action_events [Fire_action bs e])"
    by (cases e) (auto simp: main_fire_def fprintf_stderr_def emit_def EXIT_SUCCESS_def)
  moreover from assms True run r1
  have "r = (if list_all action_returns [Fire_action bs e]
             then Some (if list_all action_ok [Fire_action bs e] then ret else EXIT_FAILURE)
             else None)"
    by (cases e) (auto simp: main_fire_def)
  ultimately show ?thesis using p by blast
qed

lemma print_status_shape:
  "\<exists>e. print_status env w =
        (if action_ok (Status_action e) then 0 else - 1,
         w\<lparr>writes := Suc (writes w),
            reads := (if e = Status_send_failed then reads w else Suc (reads w)),
            trace := trace w @ status_events e\<rparr>)"
proof (cases "write_rc env (writes w) < 0")
  case True
  then show ?thesis
    by (intro exI [of _ Status_send_failed]) (simp add: print_status_eq)
next
  case sent: False
  show ?thesis
  proof (cases "read_reply env (reads w)")
    case Read_failed
    with sent show ?thesis
      by (intro exI [of _ Status_read_failed]) (simp add: print_status_eq)
  next
    case (Read_byte b)
    with sent show ?thesis
      by (intro exI [of _ "Status_done b"]) (simp add: print_status_eq)
  qed
qed

lemma main_status_shape:
  assumes "main_status env a ret w = (ret', w')"
  shows "\<exists>ss. status_part a (ret = EXIT_SUCCESS) ss \<and>
              trace w' = trace w @ concat (map action_events ss) \<and>
              ret' = (if list_all action_ok ss then ret else EXIT_FAILURE)"
proof (cases "display_status a \<and> ret = EXIT_SUCCESS")
  case False
  with assms have "status_part a (ret = EXIT_SUCCESS) []"
    and "trace w' = trace w @ concat (map action_events [])"
    and "ret' = (if list_all action_ok [] then ret else EXIT_FAILURE)"
    by (auto simp: main_status_def)
  then show ?thesis by blast
next
  case True
  from print_status_shape [of env w] obtain e where
    "print_status env w =
        (if action_ok (Status_action e) then 0 else - 1,
         w\<lparr>writes := Suc (writes w),
            reads := (if e = Status_send_failed then reads w else Suc (reads w)),
            trace := trace w @ status_events e\<rparr>)" ..
  with assms True have "status_part a (ret = EXIT_SUCCESS) [Status_action e]"
    and "trace w' = trace w @ concat (map action_events [Status_action e])"
    and "ret' = (if list_all action_ok [Status_action e] then ret else EXIT_FAILURE)"
    by (auto simp: main_status_def fprintf_stderr_def emit_def split: if_splits)
  then show ?thesis by blast
qed

lemma parse_opt_trace:
  "parse_opt cb a w = (r, w') \<Longrightarrow>
   \<exists>es. trace w' = trace w @ es \<and> list_all is_message es \<and>
        writes w' = writes w \<and> reads w' = reads w"
  by (cases cb)
    (auto simp: parse_opt_def argp_usage_def fprintf_stderr_def emit_def
      split: if_splits prod.splits)

lemma argp_parse_trace:
  "argp_parse argv a w = (r, w') \<Longrightarrow>
   \<exists>es. trace w' = trace w @ es \<and> list_all is_message es \<and>
        writes w' = writes w \<and> reads w' = reads w"
proof (induction argv arbitrary: a w)
  case Nil
  then show ?case by simp
next
  case (Cons cb argv)
  obtain r1 w1 where step: "parse_opt cb a w = (r1, w1)"
    by (cases "parse_opt cb a w")
  from parse_opt_trace [OF step] obtain es1 where
    es1: "trace w1 = trace w @ es1" "list_all is_message es1"
      "writes w1 = writes w" "reads w1 = reads w"
    by blast
  show ?case
  proof (cases r1)
    case None
    with Cons.prems step es1 show ?thesis by auto
  next
    case (Some p)
    obtain err a1 where p: "p = (err, a1)" by (cases p)
    with Cons.prems step Some have "argp_parse argv a1 w1 = (r, w')" by simp
    from Cons.IH [OF this] obtain es2 where
      "trace w' = trace w1 @ es2" "list_all is_message es2"
      "writes w' = writes w1" "reads w' = reads w1"
      by blast
    with es1 have "trace w' = trace w @ (es1 @ es2)" "list_all is_message (es1 @ es2)"
      "writes w' = writes w" "reads w' = reads w"
      by simp_all
    then show ?thesis by blast
  qed
qed

lemma exit_codes: "EXIT_SUCCESS \<noteq> EXIT_FAILURE" "EXIT_FAILURE \<noteq> EXIT_SUCCESS"
  by (simp_all add: EXIT_SUCCESS_def EXIT_FAILURE_def)

lemma ok_returns: "action_ok act \<Longrightarrow> action_returns act"
  by (cases act) auto

lemma all_ok_returns: "list_all action_ok acts \<Longrightarrow> list_all action_returns acts"
  by (induction acts) (simp_all add: ok_returns)

lemma main_shape:
  assumes run: "main fuel env argv = (r, w')"
    and parse: "argp_parse argv default_arguments world0 = (pa, w0)"
  shows "list_all is_message (trace w0) \<and>
     (case pa of
        None \<Rightarrow> r = Some EX_USAGE \<and> w' = w0
      | Some a \<Rightarrow>
          if \<not> open_ok env
          then r = Some EXIT_FAILURE \<and>
               trace w' = trace w0 @
                 [Hid_open False, Stderr (line ''Failed to open requested device'')]
          else
            (\<exists>ms fs ss.
               move_part a ms \<and> fire_part a (list_all action_ok ms) fs \<and>
               status_part a (list_all action_ok (ms @ fs)) ss \<and>
               (if list_all action_returns fs
                then r = Some (if list_all action_ok (ms @ fs @ ss)
                               then EXIT_SUCCESS else EXIT_FAILURE) \<and>
                     trace w' = trace w0 @
                       Hid_open True # concat (map action_events (ms @ fs @ ss)) @ [Hid_close]
                else r = None \<and> ss = [] \<and>
                     trace w' = trace w0 @
                       Hid_open True # concat (map action_events (ms @ fs)))))"
proof
  from argp_parse_trace [OF parse] show "list_all is_message (trace w0)"
    by (auto simp: world0_def)
  show "case pa of
        None \<Rightarrow> r = Some EX_USAGE \<and> w' = w0
      | Some a \<Rightarrow>
          if \<not> open_ok env
          then r = Some EXIT_FAILURE \<and>
               trace w' = trace w0 @
                 [Hid_open False, Stderr (line ''Failed to open requested device'')]
          else
            (\<exists>ms fs ss.
               move_part a ms \<and> fire_part a (list_all action_ok ms) fs \<and>
               status_part a (list_all action_ok (ms @ fs)) ss \<and>
               (if list_all action_returns fs
                then r = Some (if list_all action_ok (ms @ fs @ ss)
                               then EXIT_SUCCESS else EXIT_FAILURE) \<and>
                     trace w' = trace w0 @
                       Hid_open True # concat (map action_events (ms @ fs @ ss)) @ [Hid_close]
                else r = None \<and> ss = [] \<and>
                     trace w' = trace w0 @
                       Hid_open True # concat (map action_events (ms @ fs))))"
  proof (cases pa)
    case None
    with run parse show ?thesis by (simp add: main_def)
  next
    case (Some a)
    show ?thesis
    proof (cases "open_ok env")
      case False
      with run parse Some show ?thesis
        by (auto simp: main_def fprintf_stderr_def emit_def)
    next
      case True
      let ?w2 = "emit (Hid_open True) w0"
      obtain ret1 w3 where mv: "main_move env a EXIT_SUCCESS ?w2 = (ret1, w3)"
        by (cases "main_move env a EXIT_SUCCESS ?w2")
      obtain r2 w4 where fr: "main_fire fuel env a ret1 w3 = (r2, w4)"
        by (cases "main_fire fuel env a ret1 w3")
      from main_move_shape [OF mv] obtain ms where
        ms: "move_part a ms" and t3: "trace w3 = trace ?w2 @ concat (map action_events ms)"
        and ret1: "ret1 = (if list_all action_ok ms then EXIT_SUCCESS else EXIT_FAILURE)"
        by blast
      from ret1 have ok1: "(ret1 = EXIT_SUCCESS) = list_all action_ok ms"
        by (simp add: exit_codes)
      from main_fire_shape [OF fr] obtain fs where
        fs: "fire_part a (list_all action_ok ms) fs"
        and t4: "trace w4 = trace w3 @ concat (map action_events fs)"
        and r2: "r2 = (if list_all action_returns fs
                       then Some (if list_all action_ok fs then ret1 else EXIT_FAILURE)
                       else None)"
        unfolding ok1 by blast
      show ?thesis
      proof (cases "list_all action_returns fs")
        case False
        with r2 have "r2 = None" by simp
        with run parse Some True mv fr have "r = None" and "w' = w4"
          by (simp_all add: main_def)
        with t3 t4 have "trace w' = trace w0 @ Hid_open True # concat (map action_events (ms @ fs))"
          by (simp add: emit_def)
        moreover from False have "\<not> list_all action_ok (ms @ fs)"
          using all_ok_returns [of fs] by auto
        then have "status_part a (list_all action_ok (ms @ fs)) []"
          by simp
        ultimately have "(\<exists>ms fs ss.
                 move_part a ms \<and> fire_part a (list_all action_ok ms) fs \<and>
                 status_part a (list_all action_ok (ms @ fs)) ss \<and>
                 (if list_all action_returns fs
                  then r = Some (if list_all action_ok (ms @ fs @ ss)
                                 then EXIT_SUCCESS else EXIT_FAILURE) \<and>
                       trace w' = trace w0 @
                         Hid_open True # concat (map action_events (ms @ fs @ ss)) @ [Hid_close]
                  else r = None \<and> ss = [] \<and>
                       trace w' = trace w0 @
                         Hid_open True # concat (map action_events (ms @ fs))))"
          using ms fs False \<open>r = None\<close>
          by (intro exI [of _ ms] exI [of _ fs] exI [of _ "[]"]) simp
        then show ?thesis
          using Some True by simp
      next
        case returns: True
        define ret2 where "ret2 = (if list_all action_ok fs then ret1 else EXIT_FAILURE)"
        with r2 returns have r2': "r2 = Some ret2" by simp
        obtain ret3 w5 where st: "main_status env a ret2 w4 = (ret3, w5)"
          by (cases "main_status env a ret2 w4")
        from ret2_def ret1 have ok2: "(ret2 = EXIT_SUCCESS) = list_all action_ok (ms @ fs)"
          by (simp add: exit_codes)
        from main_status_shape [OF st] obtain ss where
          ss: "status_part a (list_all action_ok (ms @ fs)) ss"
          and t5: "trace w5 = trace w4 @ concat (map action_events ss)"
          and ret3: "ret3 = (if list_all action_ok ss then ret2 else EXIT_FAILURE)"
          unfolding ok2 by blast
        from run parse Some True mv fr r2' st have "r = Some ret3" and "w' = emit Hid_close w5"
          by (simp_all add: main_def)
        moreover from ret3 ret2_def ret1
        have "ret3 = (if list_all action_ok (ms @ fs @ ss) then EXIT_SUCCESS else EXIT_FAILURE)"
          by simp
        moreover from t3 t4 t5
        have "trace (emit Hid_close w5) = trace w0 @
            Hid_open True # concat (map action_events (ms @ fs @ ss)) @ [Hid_close]"
          by (simp add: emit_def)
        ultimately have "(\<exists>ms fs ss.
                 move_part a ms \<and> fire_part a (list_all action_ok ms) fs \<and>
                 status_part a (list_all action_ok (ms @ fs)) ss \<and>
                 (if list_all action_returns fs
                  then r = Some (if list_all action_ok (ms @ fs @ ss)
                                 then EXIT_SUCCESS else EXIT_FAILURE) \<and>
                       trace w' = trace w0 @
                         Hid_open True # concat (map action_events (ms @ fs @ ss)) @ [Hid_close]
                  else r = None \<and> ss = [] \<and>
                       trace w' = trace w0 @
                         Hid_open True # concat (map action_events (ms @ fs))))"
          using ms fs ss returns
          by (intro exI [of _ ms] exI [of _ fs] exI [of _ ss]) simp
        then show ?thesis
          using Some True by simp
      qed
    qed
  qed
qed

lemma move_part_cases:
  "move_part a ms \<Longrightarrow> ms = [] \<or> (\<exists>dir d e. ms = [Move_action dir d e])"
  by (cases "(a, ms)" rule: move_part.cases) auto

lemma fire_part_cases:
  "fire_part a ok fs \<Longrightarrow> fs = [] \<or> (\<exists>bs e. fs = [Fire_action bs e] \<and> ok)"
  by (cases "(a, ok, fs)" rule: fire_part.cases) auto

lemma status_part_cases:
  "status_part a ok ss \<Longrightarrow> ss = [] \<or> (\<exists>e. ss = [Status_action e] \<and> ok)"
  by (cases "(a, ok, ss)" rule: status_part.cases) auto

lemma parts_butlast_ok:
  assumes "move_part a ms" and "fire_part a (list_all action_ok ms) fs"
    and "status_part a (list_all action_ok (ms @ fs)) ss"
  shows "list_all action_ok (butlast (ms @ fs @ ss))"
  using move_part_cases [OF assms(1)] fire_part_cases [OF assms(2)]
    status_part_cases [OF assms(3)]
  by (auto simp: butlast_append)








lemma motion_messages: "list_all is_message es \<Longrightarrow> foldl motion_step s es = s"
proof (induction es arbitrary: s)
  case Nil
  then show ?case by simp
next
  case (Cons e es)
  then show ?case by (cases e) simp_all
qed

lemma motion_poll: "foldl motion_step s (poll b) = s"
  by (cases s) (simp_all add: poll_def starts_motion_def encode_def)

lemma motion_polls: "foldl motion_step s (polls bs) = s"
  by (induction bs) (simp_all add: polls_Nil polls_Cons motion_poll)

lemma motion_action:
  "foldl motion_step Idle (action_events act) \<noteq> Violated \<and>
   (action_ok act \<longrightarrow> foldl motion_step Idle (action_events act) = Idle)"
proof (cases act)
  case (Move_action dir d e)
  then show ?thesis
    by (cases e; cases dir) (simp_all add: starts_motion_def encode_def)
next
  case (Fire_action bs e)
  then show ?thesis
    by (cases e) (simp_all add: starts_motion_def encode_def motion_polls)
next
  case (Status_action e)
  then show ?thesis
    by (cases e) (simp_all add: starts_motion_def encode_def)
qed

lemma motion_all_ok:
  "list_all action_ok acts \<Longrightarrow> foldl motion_step Idle (concat (map action_events acts)) = Idle"
  by (induction acts) (simp_all add: motion_action)

lemma motion_prefix_ok:
  assumes "list_all action_ok (butlast acts)"
  shows "foldl motion_step Idle (concat (map action_events acts)) \<noteq> Violated"
proof (cases acts rule: rev_cases)
  case Nil
  then show ?thesis by simp
next
  case (snoc xs x)
  with assms have "list_all action_ok xs" by simp
  with snoc show ?thesis
    by (simp add: motion_all_ok motion_action)
qed

lemma main_trace:
  "\<exists>pre mid acts post.
     trace (snd (main fuel env argv)) = pre @ mid @ concat (map action_events acts) @ post \<and>
     list_all is_message pre \<and>
     (mid = [] \<or> mid = [Hid_open True] \<or>
      mid = [Hid_open False, Stderr (line ''Failed to open requested device'')]) \<and>
     list_all action_ok (butlast acts) \<and>
     (post = [] \<or> post = [Hid_close])"
proof -
  obtain r w' where run: "main fuel env argv = (r, w')"
    by (cases "main fuel env argv")
  obtain pa w0 where parse: "argp_parse argv default_arguments world0 = (pa, w0)"
    by (cases "argp_parse argv default_arguments world0")
  note shape = main_shape [OF run parse]
  then have msg: "list_all is_message (trace w0)" by simp
  have "\<exists>mid acts post.
     trace w' = trace w0 @ mid @ concat (map action_events acts) @ post \<and>
     (mid = [] \<or> mid = [Hid_open True] \<or>
      mid = [Hid_open False, Stderr (line ''Failed to open requested device'')]) \<and>
     list_all action_ok (butlast acts) \<and>
     (post = [] \<or> post = [Hid_close])"
  proof (cases pa)
    case None
    with shape have "trace w' = trace w0 @ [] @ concat (map action_events []) @ []"
      by simp
    then show ?thesis by (intro exI [of _ "[]"]) simp
  next
    case (Some a)
    show ?thesis
    proof (cases "open_ok env")
      case False
      with shape Some have "trace w' = trace w0 @
          [Hid_open False, Stderr (line ''Failed to open requested device'')] @
          concat (map action_events []) @ []"
        by simp
      then show ?thesis
        by (intro exI [of _ "[Hid_open False, Stderr (line ''Failed to open requested device'')]"]
            exI [of _ "[]"]) simp
    next
      case True
      with shape Some obtain ms fs ss where
        parts: "move_part a ms" "fire_part a (list_all action_ok ms) fs"
          "status_part a (list_all action_ok (ms @ fs)) ss"
        and rest: "if list_all action_returns fs
           then r = Some (if list_all action_ok (ms @ fs @ ss)
                               then EXIT_SUCCESS else EXIT_FAILURE) \<and>
              trace w' = trace w0 @
                Hid_open True # concat (map action_events (ms @ fs @ ss)) @ [Hid_close]
           else r = None \<and> ss = [] \<and>
              trace w' = trace w0 @ Hid_open True # concat (map action_events (ms @ fs))"
        by auto
      from rest have "trace w' = trace w0 @
          [Hid_open True] @ concat (map action_events (ms @ fs @ ss)) @
          (if list_all action_returns fs then [Hid_close] else [])"
        by (auto split: if_splits)
      with parts_butlast_ok [OF parts] show ?thesis
        by (intro exI [of _ "[Hid_open True]"] exI [of _ "ms @ fs @ ss"]
            exI [of _ "if list_all action_returns fs then [Hid_close] else []"]) simp
    qed
  qed
  with run msg show ?thesis
    by auto
qed

lemma frames_messages: "list_all is_message es \<Longrightarrow> frames es = []"
proof (induction es)
  case Nil
  then show ?case by simp
next
  case (Cons e es)
  then show ?case by (cases e) simp_all
qed

lemma command_frames_polls: "list_all is_command_frame (frames (polls bs))"
  by (induction bs) (simp_all add: polls_Nil polls_Cons poll_def is_command_frame_def)

lemma frames_action: "list_all is_command_frame (frames (action_events act))"
proof (cases act)
  case (Move_action dir d e)
  then show ?thesis
    by (cases e; cases dir) (simp_all add: is_command_frame_def)
next
  case (Fire_action bs e)
  then show ?thesis
    by (cases e)
      (simp_all add: frames_append command_frames_polls, simp_all add: is_command_frame_def)
next
  case (Status_action e)
  then show ?thesis
    by (cases e) (simp_all add: is_command_frame_def)
qed

lemma frames_actions: "list_all is_command_frame (frames (concat (map action_events acts)))"
  by (induction acts) (simp_all add: frames_append frames_action)

lemma main_frames: "list_all is_command_frame (frames (trace (snd (main fuel env argv))))"
proof -
  from main_trace [of fuel env argv] obtain pre mid acts post where
    t: "trace (snd (main fuel env argv)) = pre @ mid @ concat (map action_events acts) @ post"
    and pre: "list_all is_message pre"
    and mid: "mid = [] \<or> mid = [Hid_open True] \<or>
      mid = [Hid_open False, Stderr (line ''Failed to open requested device'')]"
    and post: "post = [] \<or> post = [Hid_close]"
    by blast
  from mid have "frames mid = []" by auto
  moreover from post have "frames post = []" by auto
  ultimately show ?thesis
    unfolding t by (simp add: frames_append frames_messages [OF pre] frames_actions)
qed

text \<open>
  Claim C3. Whatever command of the closed enumeration the program sends, the
  transport receives exactly one frame of two bytes, the report number 0 and
  then the command's wire value: MoveDown 0x01, MoveUp 0x02, MoveLeft 0x04,
  MoveRight 0x08, Fire 0x10, Stop 0x20, GetStatus 0x40. The macros of the program
  are these values, the encoder is a total function, and the only other effect
  of the send is the message on \<open>stderr\<close> when the write fails. In every run of
  \<open>main\<close> every frame written to the device is such a frame.
\<close>

theorem send_command_frame:
  "send_command env (command_macro c) w =
     (if write_rc env (writes w) < 0
      then (- 1, w\<lparr>writes := Suc (writes w),
                     trace := trace w @ [Hid_write (encode c) False,
                                         Stderr (line ''Output report write failed'')]\<rparr>)
      else (0, w\<lparr>writes := Suc (writes w), trace := trace w @ [Hid_write (encode c) True]\<rparr>))
   \<and> length (encode c) = 2 \<and> encode c ! 0 = 0x00 \<and> encode c ! 1 = wire_value c
   \<and> map wire_value [MoveDown, MoveUp, MoveLeft, MoveRight, Fire, Stop, GetStatus]
       = [0x01, 0x02, 0x04, 0x08, 0x10, 0x20, 0x40]
   \<and> map command_macro [MoveDown, MoveUp, MoveLeft, MoveRight, Fire, Stop, GetStatus]
       = [0x01, 0x02, 0x04, 0x08, 0x10, 0x20, 0x40]
   \<and> list_all is_command_frame (frames (trace (snd (main fuel env argv))))"
  by (simp add: send_macro_eq encode_def cmd_defs main_frames)

text \<open>
  Claim C6. In every run of \<open>main\<close>, finished or still polling, for every
  environment and every command line, the frames written to the device never
  start a movement (a Move or a Fire frame) while an earlier one is active, that
  is, before a Stop frame was written after it.
\<close>

theorem movement_never_doubled:
  "foldl motion_step Idle (trace (snd (main fuel env argv))) \<noteq> Violated"
proof -
  obtain r w' where run: "main fuel env argv = (r, w')"
    by (cases "main fuel env argv")
  obtain pa w0 where parse: "argp_parse argv default_arguments world0 = (pa, w0)"
    by (cases "argp_parse argv default_arguments world0")
  note shape = main_shape [OF run parse]
  then have msg: "list_all is_message (trace w0)" by simp
  have "foldl motion_step Idle (trace w') \<noteq> Violated"
  proof (cases pa)
    case None
    with shape msg show ?thesis by (simp add: motion_messages)
  next
    case (Some a)
    show ?thesis
    proof (cases "open_ok env")
      case False
      with shape Some msg show ?thesis by (simp add: motion_messages)
    next
      case True
      with shape Some obtain ms fs ss where
        parts: "move_part a ms" "fire_part a (list_all action_ok ms) fs"
          "status_part a (list_all action_ok (ms @ fs)) ss"
        and rest: "if list_all action_returns fs
           then r = Some (if list_all action_ok (ms @ fs @ ss)
                               then EXIT_SUCCESS else EXIT_FAILURE) \<and>
              trace w' = trace w0 @
                Hid_open True # concat (map action_events (ms @ fs @ ss)) @ [Hid_close]
           else r = None \<and> ss = [] \<and>
              trace w' = trace w0 @ Hid_open True # concat (map action_events (ms @ fs))"
        by auto
      from rest have t: "trace w' = trace w0 @
          Hid_open True # concat (map action_events (ms @ fs @ ss)) @
          (if list_all action_returns fs then [Hid_close] else [])"
        by (auto split: if_splits)
      from motion_prefix_ok [OF parts_butlast_ok [OF parts]]
      have "foldl motion_step Idle (concat (map action_events (ms @ fs @ ss))) \<noteq> Violated" .
      moreover have "\<And>s. s \<noteq> Violated \<Longrightarrow>
          foldl motion_step s (if list_all action_returns fs then [Hid_close] else []) \<noteq> Violated"
        by simp
      ultimately show ?thesis
        unfolding t by (simp add: motion_messages [OF msg] del: map_append)
    qed
  qed
  with run show ?thesis by simp
qed

theorem movement_never_doubled_witness:
  "foldl motion_step Idle (trace (snd (main 9 mock_env [Key_m ''down'', Key_f, Key_p]))) = Idle
   \<and> foldl motion_step Idle
        (trace (snd (main 9 mock_read_fails [Key_m ''up'', Key_f, Key_p]))) = Active"
proof -
  have finished: "foldl motion_step Idle
      (trace (snd (main 9 mock_env [Key_m ''down'', Key_f, Key_p]))) = Idle"
    by code_simp
  have aborted: "foldl motion_step Idle
      (trace (snd (main 9 mock_read_fails [Key_m ''up'', Key_f, Key_p]))) = Active"
    by code_simp
  from movement_never_doubled [of 9 mock_read_fails "[Key_m ''up'', Key_f, Key_p]"]
    finished aborted
  show ?thesis
    by simp
qed

lemma monitor_rejects_second_start:
  "foldl motion_step Idle
     [Hid_write (encode MoveUp) True, Hid_write (encode Fire) True] = Violated"
  by (simp add: starts_motion_def encode_def)

section \<open>The command line\<close>

lemma argp_own_keys: "argp_parse (map Key_other ks) a w = (Some a, w)"
  by (induction ks) (simp_all add: parse_opt_def)

text \<open>
  Claim C8. The documentation string of the program says that without options
  it fires one missile. The code does not: with no option (argp then calls the
  parser with keys of its own only) the defaults stand, \<open>fire\<close> is false, and
  \<open>main\<close> opens the device, writes no frame at all and closes it, with exit
  status 0; with \<open>--fire\<close> it writes the Fire frame, polls and writes the Stop
  frame.
\<close>

theorem no_options_sends_nothing:
  "main fuel env (map Key_other ks) =
     (if open_ok env
      then (Some EXIT_SUCCESS, \<lparr>writes = 0, reads = 0, trace = [Hid_open True, Hid_close]\<rparr>)
      else (Some EXIT_FAILURE,
            \<lparr>writes = 0, reads = 0,
             trace = [Hid_open False, Stderr (line ''Failed to open requested device'')]\<rparr>))
   \<and> frames (trace (snd (main fuel env (map Key_other ks)))) = []
   \<and> frames (trace (snd (main 4 mock_env [Key_f]))) =
       [[0x00, 0x10], [0x00, 0x40], [0x00, 0x40], [0x00, 0x40], [0x00, 0x40], [0x00, 0x20]]"
proof -
  have run: "main fuel env (map Key_other ks) =
     (if open_ok env
      then (Some EXIT_SUCCESS, \<lparr>writes = 0, reads = 0, trace = [Hid_open True, Hid_close]\<rparr>)
      else (Some EXIT_FAILURE,
            \<lparr>writes = 0, reads = 0,
             trace = [Hid_open False, Stderr (line ''Failed to open requested device'')]\<rparr>))"
    by (simp add: main_def argp_own_keys default_arguments_def world0_def main_move_def
        main_fire_def main_status_def emit_def fprintf_stderr_def)
  have fire: "frames (trace (snd (main 4 mock_env [Key_f]))) =
       [[0x00, 0x10], [0x00, 0x40], [0x00, 0x40], [0x00, 0x40], [0x00, 0x40], [0x00, 0x20]]"
    by code_simp
  from run fire show ?thesis
    by simp
qed

text \<open>
  The option \<open>--time\<close>: the argument is accepted when \<open>strtoul\<close> consumes all
  of it and the value is below 10000, and the duration is then the value times
  1000, which fits the 32 bits of \<open>useconds_t\<close>.
\<close>

lemma parse_time_eq:
  "parse_opt (Key_t arg) a w =
     (if snd (strtoul arg) = [] \<and> fst (strtoul arg) < 10000
      then (Some (0, a\<lparr>movement_duration := ucast (fst (strtoul arg) * 1000)\<rparr>), w)
      else (None, w\<lparr>trace := trace w @
              [Stderr (line ''Invalid duration specified''), Argp_usage]\<rparr>))"
  by (simp add: parse_opt_def argp_usage_def fprintf_stderr_def emit_def split: prod.split)

lemma duration_fits:
  fixes v :: "64 word"
  assumes "v < 10000"
  shows "unat (ucast (v * 1000) :: 32 word) = unat v * 1000"
proof -
  from assms have "unat v < 10000"
    by (simp add: word_less_nat_alt)
  then have small: "unat v * 1000 < 2 ^ 32"
    by simp
  then have "unat (v * 1000) = unat v * 1000"
    by (simp add: unat_word_ariths)
  with small show ?thesis
    by (simp add: unsigned_ucast_eq take_bit_nat_eq_self)
qed

text \<open>
  Claim C9. The empty string is not a numeral, and the claim has it rejected.
  The code accepts it: \<open>strtoul\<close> converts nothing and leaves \<open>endptr\<close> at the
  terminator, the test \<open>arg != '\0'\<close> is a test of the pointer, and the value 0
  is below 10000. The movement then lasts 0 microseconds. (The numeral 9999 is
  accepted as 9999000 microseconds; 10000 and a word that is no numeral are
  rejected.)
\<close>

theorem empty_duration_accepted:
  "strtoul [] = (0, [])
   \<and> parse_opt (Key_t []) default_arguments world0 =
       (Some (0, default_arguments\<lparr>movement_duration := 0\<rparr>), world0)
   \<and> parse_opt (Key_t ''9999'') default_arguments world0 =
       (Some (0, default_arguments\<lparr>movement_duration := 9999000\<rparr>), world0)
   \<and> fst (parse_opt (Key_t ''10000'') default_arguments world0) = None
   \<and> fst (parse_opt (Key_t ''soon'') default_arguments world0) = None
   \<and> main 4 mock_env [Key_m ''up'', Key_t []] =
       (Some 0, \<lparr>writes = 2, reads = 0,
          trace = [Hid_open True, Hid_write [0x00, 0x02] True, Usleep 0,
                   Hid_write [0x00, 0x20] True, Hid_close]\<rparr>)"
  by code_simp

end
